theory Spec2Isabelle
  imports Complex_Main
begin

section \<open>Numbers and strings of the host language\<close>

text \<open>
  The navigation helpers compute with JavaScript numbers. A finite number is modelled as
  a \<^typ>\<open>real\<close>, and an operation on finite numbers is exact: the rounding of
  the result to the nearest double is not modelled. What is modelled is where a
  computation leaves the finite numbers (an overflow, a division by zero, text that is
  no number) and how \<open>NaN\<close> and the infinities go on from there; see the type
  \<open>jsnum\<close> below. The remainder operator \<open>%\<close> truncates its quotient towards
  zero, so its result has the sign of the dividend; \<open>Math.round\<close> rounds a half
  upwards.
\<close>

definition js_trunc :: "real \<Rightarrow> int" where
  "js_trunc x = (if 0 \<le> x then \<lfloor>x\<rfloor> else - \<lfloor>- x\<rfloor>)"

definition js_rem :: "real \<Rightarrow> real \<Rightarrow> real" where
  "js_rem a b = a - b * of_int (js_trunc (a / b))"

definition js_round :: "real \<Rightarrow> int" where
  "js_round x = \<lfloor>x + 1 / 2\<rfloor>"

text \<open>The remainder of two integer-valued numbers, as \<open>%\<close> computes it.\<close>

definition js_rem_int :: "int \<Rightarrow> int \<Rightarrow> int" where
  "js_rem_int a b = a - b * js_trunc (of_int a / of_int b)"

text \<open>
  \<open>Math.atan2(y, x)\<close>: the angle of the point \<open>(x, y)\<close>, in \<open>(-pi, pi]\<close>, and 0 at
  the origin.
\<close>

definition atan2 :: "real \<Rightarrow> real \<Rightarrow> real" where
  "atan2 y x =
     (if 0 < x then arctan (y / x)
      else if x < 0 then (if 0 \<le> y then arctan (y / x) + pi else arctan (y / x) - pi)
      else if 0 < y then pi / 2
      else if y < 0 then - (pi / 2)
      else 0)"

text \<open>Decimal digits of a natural number, as a template string prints an integer.\<close>

definition digit_char :: "nat \<Rightarrow> char" where
  "digit_char d = ''0123456789'' ! d"

fun show_nat :: "nat \<Rightarrow> string" where
  "show_nat n = (if n < 10 then [digit_char n] else show_nat (n div 10) @ [digit_char (n mod 10)])"

declare show_nat.simps [simp del]

text \<open>
  \<open>x.toFixed(1)\<close>: the integer \<open>n\<close> nearest to \<open>10 * |x|\<close> (the larger one on a
  tie), printed with one digit after the point, after a minus sign when \<open>x < 0\<close>.
  (Above \<open>10^21\<close> the host prints an exponent instead; no distance on the globe is
  that large.)
\<close>

definition toFixed1_abs :: "real \<Rightarrow> string" where
  "toFixed1_abs x =
     (let n = nat \<lfloor>x * 10 + 1 / 2\<rfloor>
      in show_nat (n div 10) @ ''.'' @ [digit_char (n mod 10)])"

definition toFixed1 :: "real \<Rightarrow> string" where
  "toFixed1 x = (if x < 0 then ''-'' @ toFixed1_abs (- x) else toFixed1_abs x)"

section \<open>Numbers that may not be finite\<close>

text \<open>
  A number of the source is finite, an infinity or \<open>NaN\<close>. It leaves the finite
  numbers where a coordinate times \<open>Math.PI\<close> overflows, where the progress tracker
  divides by a zero parsed from a string, and where \<open>parseFloat\<close> reads text that
  starts with no number. The operations below are the source's on the four kinds of
  value. (The sign of a zero is not modelled: a zero divisor counts as \<open>+0\<close>.)
\<close>

datatype jsnum = Num real | PosInf | NegInf | NaN

fun js_div :: "jsnum \<Rightarrow> jsnum \<Rightarrow> jsnum" where
  "js_div NaN y = NaN"
| "js_div x NaN = NaN"
| "js_div (Num a) (Num b) =
     (if b \<noteq> 0 then Num (a / b)
      else if a = 0 then NaN else if 0 < a then PosInf else NegInf)"
| "js_div (Num a) PosInf = Num 0"
| "js_div (Num a) NegInf = Num 0"
| "js_div PosInf (Num b) = (if 0 \<le> b then PosInf else NegInf)"
| "js_div NegInf (Num b) = (if 0 \<le> b then NegInf else PosInf)"
| "js_div x y = NaN"

fun js_mul :: "jsnum \<Rightarrow> jsnum \<Rightarrow> jsnum" where
  "js_mul NaN y = NaN"
| "js_mul x NaN = NaN"
| "js_mul (Num a) (Num b) = Num (a * b)"
| "js_mul (Num a) PosInf = (if a = 0 then NaN else if 0 < a then PosInf else NegInf)"
| "js_mul (Num a) NegInf = (if a = 0 then NaN else if 0 < a then NegInf else PosInf)"
| "js_mul PosInf (Num b) = (if b = 0 then NaN else if 0 < b then PosInf else NegInf)"
| "js_mul NegInf (Num b) = (if b = 0 then NaN else if 0 < b then NegInf else PosInf)"
| "js_mul PosInf PosInf = PosInf"
| "js_mul NegInf NegInf = PosInf"
| "js_mul x y = NegInf"

fun js_sub :: "jsnum \<Rightarrow> jsnum \<Rightarrow> jsnum" where
  "js_sub NaN y = NaN"
| "js_sub x NaN = NaN"
| "js_sub (Num a) (Num b) = Num (a - b)"
| "js_sub (Num a) PosInf = NegInf"
| "js_sub (Num a) NegInf = PosInf"
| "js_sub PosInf PosInf = NaN"
| "js_sub NegInf NegInf = NaN"
| "js_sub PosInf y = PosInf"
| "js_sub NegInf y = NegInf"

fun js_max :: "jsnum \<Rightarrow> jsnum \<Rightarrow> jsnum" where
  "js_max NaN y = NaN"
| "js_max x NaN = NaN"
| "js_max PosInf y = PosInf"
| "js_max x PosInf = PosInf"
| "js_max NegInf y = y"
| "js_max x NegInf = x"
| "js_max (Num a) (Num b) = Num (max a b)"

fun js_min :: "jsnum \<Rightarrow> jsnum \<Rightarrow> jsnum" where
  "js_min NaN y = NaN"
| "js_min x NaN = NaN"
| "js_min NegInf y = NegInf"
| "js_min x NegInf = NegInf"
| "js_min PosInf y = y"
| "js_min x PosInf = x"
| "js_min (Num a) (Num b) = Num (min a b)"

fun js_round_num :: "jsnum \<Rightarrow> jsnum" where
  "js_round_num (Num a) = Num (of_int (js_round a))"
| "js_round_num x = x"

definition show_int :: "int \<Rightarrow> string" where
  "show_int n = (if n < 0 then ''-'' @ show_nat (nat (- n)) else show_nat (nat n))"

text \<open>
  How a template string prints a number that has no fraction (the tracker prints only
  results of \<open>Math.round\<close>).
\<close>

fun show_rounded :: "jsnum \<Rightarrow> string" where
  "show_rounded (Num a) = show_int \<lfloor>a\<rfloor>"
| "show_rounded PosInf = ''Infinity''"
| "show_rounded NegInf = ''-Infinity''"
| "show_rounded NaN = ''NaN''"

text \<open>
  A comparison with \<open>NaN\<close> is false; \<open>toFixed(1)\<close> prints \<open>NaN\<close> and the
  infinities by their names.
\<close>

fun js_less :: "jsnum \<Rightarrow> jsnum \<Rightarrow> bool" where
  "js_less NaN y = False"
| "js_less x NaN = False"
| "js_less (Num a) (Num b) = (a < b)"
| "js_less PosInf y = False"
| "js_less x NegInf = False"
| "js_less x y = True"

fun toFixed1_num :: "jsnum \<Rightarrow> string" where
  "toFixed1_num (Num x) = toFixed1 x"
| "toFixed1_num PosInf = ''Infinity''"
| "toFixed1_num NegInf = ''-Infinity''"
| "toFixed1_num NaN = ''NaN''"

text \<open>
  A product overflows to an infinity when its magnitude reaches \<open>2^1024 - 2^970\<close>,
  half a step beyond the largest double (\<open>Math.PI\<close> is taken to be \<open>\<pi>\<close>).
\<close>

definition overflows :: "real \<Rightarrow> bool" where
  "overflows x = (2 ^ 1024 - 2 ^ 970 \<le> \<bar>x\<bar>)"

section \<open>Geo-math utilities (navigation-helpers.ts)\<close>

type_synonym coord = "real \<times> real"

definition directions :: "string list" where
  "directions =
     [''north'', ''northeast'', ''east'', ''southeast'',
      ''south'', ''southwest'', ''west'', ''northwest'']"

text \<open>
  Reading an array at an index outside of it gives \<open>undefined\<close> in the source;
  here \<open>None\<close>.
\<close>

definition array_get :: "'a list \<Rightarrow> int \<Rightarrow> 'a option" where
  "array_get xs i = (if 0 \<le> i \<and> i < int (length xs) then Some (xs ! nat i) else None)"

definition direction_index :: "real \<Rightarrow> int" where
  "direction_index bearing = js_rem_int (js_round (bearing / 45)) 8"

text \<open>
  For a bearing that is \<open>NaN\<close> or an infinity, \<open>Math.round(bearing / 45) % 8\<close> is
  \<open>NaN\<close>, and the array has no element there.
\<close>

definition getDirectionFromBearing :: "jsnum \<Rightarrow> string option" where
  "getDirectionFromBearing bearing =
     (case bearing of
        Num b \<Rightarrow> array_get directions (direction_index b)
      | _ \<Rightarrow> None)"

text \<open>
  Both functions convert their four coordinates to radians by
  \<open>(x * Math.PI) / 180\<close>. When one of these products overflows, a sine or a cosine is
  taken of an infinity or of \<open>NaN\<close>, which is \<open>NaN\<close>, and so is the result of the
  function. Otherwise the result is the exact value of the source's expression. The
  source rounds every intermediate number, and the rounding can lift the haversine term
  \<open>a\<close> of two points that are antipodal, or nearly so, above 1; the source then takes
  the square root of a negative number and its distance is \<open>NaN\<close>, where this
  model gives the exact distance. The properties of the session that depend on a
  distance being a number are therefore stated for every value that a distance may
  have.
\<close>

definition radians_overflow :: "coord \<Rightarrow> bool" where
  "radians_overflow point = (overflows (fst point * pi) \<or> overflows (snd point * pi))"

definition bearing_value :: "coord \<Rightarrow> coord \<Rightarrow> real" where
  "bearing_value point1 point2 =
     (let lng1 = fst point1 * pi / 180;
          lat1 = snd point1 * pi / 180;
          lng2 = fst point2 * pi / 180;
          lat2 = snd point2 * pi / 180;
          y = sin (lng2 - lng1) * cos lat2;
          x = cos lat1 * sin lat2 - sin lat1 * cos lat2 * cos (lng2 - lng1);
          bearing = atan2 y x * 180 / pi
      in js_rem (bearing + 360) 360)"

definition calculateBearing :: "coord \<Rightarrow> coord \<Rightarrow> jsnum" where
  "calculateBearing point1 point2 =
     (if radians_overflow point1 \<or> radians_overflow point2 then NaN
      else Num (bearing_value point1 point2))"

definition distance_value :: "coord \<Rightarrow> coord \<Rightarrow> real" where
  "distance_value point1 point2 =
     (let lng1 = fst point1; lat1 = snd point1;
          lng2 = fst point2; lat2 = snd point2;
          rlat1 = lat1 * pi / 180;
          rlng1 = lng1 * pi / 180;
          rlat2 = lat2 * pi / 180;
          rlng2 = lng2 * pi / 180;
          dlng = rlng2 - rlng1;
          dlat = rlat2 - rlat1;
          a = (sin (dlat / 2))\<^sup>2 + cos rlat1 * cos rlat2 * (sin (dlng / 2))\<^sup>2;
          c = 2 * atan2 (sqrt a) (sqrt (1 - a))
      in 3956 * c)"

definition calculateDistance :: "coord \<Rightarrow> coord \<Rightarrow> jsnum" where
  "calculateDistance point1 point2 =
     (if radians_overflow point1 \<or> radians_overflow point2 then NaN
      else Num (distance_value point1 point2))"

section \<open>Instruction generator (navigation-helpers.ts)\<close>

text \<open>A direction that is \<open>undefined\<close> prints as that word in a template string.\<close>

definition show_direction :: "string option \<Rightarrow> string" where
  "show_direction d = (case d of None \<Rightarrow> ''undefined'' | Some s \<Rightarrow> s)"

text \<open>
  The turn angle is the difference of the two bearings. When it is not finite, every
  comparison of the chain with \<open>NaN\<close> or \<open>-Infinity\<close> fails down to the last
  branch, and \<open>Infinity\<close> passes the test \<open>>= 120\<close>.
\<close>

definition generateTurnInstruction :: "jsnum option \<Rightarrow> jsnum \<Rightarrow> jsnum \<Rightarrow> string" where
  "generateTurnInstruction prevBearing currentBearing miles =
     (case prevBearing of
        None \<Rightarrow>
          ''Head '' @ show_direction (getDirectionFromBearing currentBearing)
            @ '' for '' @ toFixed1_num miles @ '' miles''
      | Some prev \<Rightarrow>
          (case js_sub currentBearing prev of
             Num angle0 \<Rightarrow>
               (let angle1 = (if angle0 < - 180 then angle0 + 360 else angle0);
                    angle = (if angle1 > 180 then angle1 - 360 else angle1)
                in if \<bar>angle\<bar> < 20
                   then ''Continue straight for '' @ toFixed1_num miles @ '' miles''
                   else ''Turn ''
                     @ (if angle \<ge> 20 \<and> angle < 60 then ''slight right''
                        else if angle \<ge> 60 \<and> angle < 120 then ''right''
                        else if angle \<ge> 120 then ''sharp right''
                        else if angle \<le> - 20 \<and> angle > - 60 then ''slight left''
                        else if angle \<le> - 60 \<and> angle > - 120 then ''left''
                        else ''sharp left'')
                     @ '' and continue for '' @ toFixed1_num miles @ '' miles'')
           | PosInf \<Rightarrow>
               ''Turn sharp right and continue for '' @ toFixed1_num miles @ '' miles''
           | _ \<Rightarrow>
               ''Turn sharp left and continue for '' @ toFixed1_num miles @ '' miles''))"

record nav_step =
  instruction :: string
  distance :: string
  coordinates :: coord
  bearing :: jsnum
  maneuver :: string

text \<open>
  The turn angle of the maneuver classification,
  \<open>((angle + 180) % 360) - 180\<close>, and the chain of tests on it, in the order of
  the source. When one of the two bearings is not finite the angle is \<open>NaN\<close>, every
  test fails and the maneuver stays "straight".
\<close>

definition normalizedAngle :: "real \<Rightarrow> real \<Rightarrow> real" where
  "normalizedAngle prevBearing currentBearing =
     js_rem ((currentBearing - prevBearing) + 180) 360 - 180"

definition maneuver_of_angle :: "real \<Rightarrow> string" where
  "maneuver_of_angle a =
     (if a > 30 then ''right''
      else if a < - 30 then ''left''
      else if a > 10 then ''slight-right''
      else if a < - 10 then ''slight-left''
      else if a > 100 then ''sharp-right''
      else if a < - 100 then ''sharp-left''
      else if \<bar>a\<bar> > 170 then ''uturn''
      else ''straight'')"

definition classify_maneuver :: "jsnum option \<Rightarrow> jsnum \<Rightarrow> string" where
  "classify_maneuver prevBearing currentBearing =
     (case prevBearing of
        None \<Rightarrow> ''straight''
      | Some prev \<Rightarrow>
          (case (prev, currentBearing) of
             (Num p, Num b) \<Rightarrow> maneuver_of_angle (normalizedAngle p b)
           | _ \<Rightarrow> ''straight''))"

text \<open>
  The loop over the segments \<open>(path[i], path[i + 1])\<close>: its body builds one step
  from the segment and the previous bearing; the loop pushes it and carries the bearing
  on.
\<close>

definition travel_step :: "jsnum option \<Rightarrow> coord \<Rightarrow> coord \<Rightarrow> nav_step" where
  "travel_step prevBearing current nxt =
     (let b = calculateBearing current nxt;
          miles = calculateDistance current nxt;
          distanceStr = toFixed1_num miles @ '' miles'';
          m = classify_maneuver prevBearing b;
          instr = generateTurnInstruction prevBearing b miles
      in \<lparr>instruction = instr, distance = distanceStr, coordinates = current,
          bearing = b, maneuver = m\<rparr>)"

fun segment_steps :: "coord list \<Rightarrow> jsnum option \<Rightarrow> nav_step list \<Rightarrow> nav_step list \<times> jsnum option" where
  "segment_steps (current # nxt # rest) prevBearing steps =
     segment_steps (nxt # rest) (Some (calculateBearing current nxt))
       (steps @ [travel_step prevBearing current nxt])"
| "segment_steps path prevBearing steps = (steps, prevBearing)"

text \<open>\<open>prevBearing || 0\<close>: null, zero and \<open>NaN\<close> give 0.\<close>

definition bearing_or_zero :: "jsnum option \<Rightarrow> jsnum" where
  "bearing_or_zero prevBearing =
     (case prevBearing of
        None \<Rightarrow> Num 0
      | Some NaN \<Rightarrow> Num 0
      | Some (Num b) \<Rightarrow> if b \<noteq> 0 then Num b else Num 0
      | Some x \<Rightarrow> x)"

definition arrival_step :: "coord list \<Rightarrow> jsnum option \<Rightarrow> nav_step" where
  "arrival_step path prevBearing =
     \<lparr>instruction = ''Arrive at your destination'',
      distance = ''0 miles'',
      coordinates = last path,
      bearing = bearing_or_zero prevBearing,
      maneuver = ''arrive''\<rparr>"

definition generateDetailedNavigationSteps :: "coord list \<Rightarrow> nav_step list" where
  "generateDetailedNavigationSteps path =
     (if length path < 2 then []
      else (let (steps, prevBearing) = segment_steps path None []
            in steps @ [arrival_step path prevBearing]))"

text \<open>The maneuvers that the classification of a segment can give.\<close>

abbreviation travel_maneuvers :: "string set" where
  "travel_maneuvers \<equiv> {''straight'', ''slight-right'', ''slight-left'', ''right'', ''left''}"

section \<open>Parsing numbers out of strings\<close>

definition is_space :: "char \<Rightarrow> bool" where
  "is_space c = (c \<in> set [CHR '' '', CHR 0x09, CHR 0x0A, CHR 0x0B, CHR 0x0C, CHR 0x0D])"

definition digit_val :: "char \<Rightarrow> nat option" where
  "digit_val c = map_of (zip ''0123456789'' [0, 1, 2, 3, 4, 5, 6, 7, 8, 9]) c"

definition hex_val :: "char \<Rightarrow> nat option" where
  "hex_val c =
     (case digit_val c of
        Some d \<Rightarrow> Some d
      | None \<Rightarrow>
          (case map_of (zip ''abcdef'' [10, 11, 12, 13, 14, 15]) c of
             Some d \<Rightarrow> Some d
           | None \<Rightarrow> map_of (zip ''ABCDEF'' [10, 11, 12, 13, 14, 15]) c))"

text \<open>The longest run of digits at the head of a string, and what follows it.\<close>

fun span_digits :: "(char \<Rightarrow> nat option) \<Rightarrow> string \<Rightarrow> nat list \<times> string" where
  "span_digits val [] = ([], [])"
| "span_digits val (c # cs) =
     (case val c of
        None \<Rightarrow> ([], c # cs)
      | Some d \<Rightarrow> (let (ds, r) = span_digits val cs in (d # ds, r)))"

definition digits_value :: "nat \<Rightarrow> nat list \<Rightarrow> nat" where
  "digits_value base ds = foldl (\<lambda>a d. base * a + d) 0 ds"

definition split_sign :: "string \<Rightarrow> bool \<times> string" where
  "split_sign s =
     (case s of
        [] \<Rightarrow> (False, [])
      | c # r \<Rightarrow> if c = CHR ''-'' then (True, r) else if c = CHR ''+'' then (False, r)
                 else (False, s))"

definition parse_exponent :: "string \<Rightarrow> int" where
  "parse_exponent s =
     (case s of
        [] \<Rightarrow> 0
      | c # r \<Rightarrow>
          if c = CHR ''e'' \<or> c = CHR ''E''
          then (let (neg, r2) = split_sign r;
                    (ds, rest) = span_digits digit_val r2
                in if ds = [] then 0
                   else if neg then - int (digits_value 10 ds) else int (digits_value 10 ds))
          else 0)"

text \<open>
  \<open>parseFloat\<close>: leading white space, a sign, then \<open>Infinity\<close> or a decimal literal
  (digits, a fraction, an exponent); the rest of the string is ignored, and a string
  with no such prefix gives \<open>NaN\<close>. (Values beyond the range of a double are not
  modelled.)
\<close>

definition parseFloat :: "string \<Rightarrow> jsnum" where
  "parseFloat s =
     (let (neg, s2) = split_sign (dropWhile is_space s)
      in if take 8 s2 = ''Infinity'' then (if neg then NegInf else PosInf)
         else (let (ip, s3) = span_digits digit_val s2;
                   (fp, s4) = (case s3 of
                                 [] \<Rightarrow> ([], [])
                               | c # r \<Rightarrow> if c = CHR ''.'' then span_digits digit_val r
                                          else ([], s3))
               in if ip = [] \<and> fp = [] then NaN
                  else (let m = real (digits_value 10 ip)
                                 + real (digits_value 10 fp) / 10 ^ length fp;
                            e = parse_exponent s4;
                            v = (if 0 \<le> e then m * 10 ^ nat e else m / 10 ^ nat (- e))
                        in Num (if neg then - v else v))))"

text \<open>
  \<open>parseInt\<close> without a radix: leading white space, a sign, then hexadecimal digits
  after \<open>0x\<close> or decimal digits; \<open>NaN\<close> when there is no digit.
\<close>

definition parseInt :: "string \<Rightarrow> jsnum" where
  "parseInt s =
     (let (neg, s2) = split_sign (dropWhile is_space s);
          hex = (take 2 s2 = ''0x'' \<or> take 2 s2 = ''0X'');
          (ds, rest) = (if hex then span_digits hex_val (drop 2 s2)
                        else span_digits digit_val s2);
          v = real (digits_value (if hex then 16 else 10) ds)
      in if ds = [] then NaN else Num (if neg then - v else v))"

text \<open>\<open>s.replace(pat, "")\<close> with a string pattern: the first occurrence is removed.\<close>

fun remove_first :: "string \<Rightarrow> string \<Rightarrow> string" where
  "remove_first pat [] = []"
| "remove_first pat (c # cs) =
     (if take (length pat) (c # cs) = pat then drop (length pat) (c # cs)
      else c # remove_first pat cs)"

section \<open>The navigation session (the navigation context)\<close>

record location =
  loc_name :: string
  loc_coordinates :: coord

record route =
  route_id :: nat
  route_name :: string
  route_duration :: string
  route_distance :: string
  trafficLevel :: string
  incidents :: nat
  route_path :: "coord list"

datatype frequency = Off | Low | Medium | High

text \<open>
  The values held by \<open>useState\<close>. A function of the component reads them from the
  render it was created in (its closure), and its setter calls change the state of the
  next render; so every operation below takes the closure's state \<open>c\<close> beside the world
  \<open>w\<close> it changes, and reads state values from \<open>c\<close> only.
\<close>

record nav_state =
  isNavigating :: bool
  activeRoute :: "route option"
  origin :: "location option"
  destination :: "location option"
  currentPosition :: "coord option"
  currentStep :: "nav_step option"
  nextStep :: "nav_step option"
  remainingDistance :: string
  remainingTime :: string
  progress :: jsnum
  voiceEnabled :: bool
  is3DMode :: bool
  distanceAlertFrequency :: frequency

text \<open>
  A pending \<open>setTimeout\<close>: the function to call, with the closure it was created in,
  and the delay in milliseconds. The source keeps no handle of a timeout.
\<close>

datatype callback =
    CallStopNavigation nav_state
  | CallRecalculateRoute nav_state
  | ResumeRecalculate nav_state location location

type_synonym timer = "callback \<times> nat"

datatype promise = Pending | Resolved | Rejected

text \<open>
  The world: the state of the latest render, the three refs (read and written at once),
  the pending timeouts, the position watches of the browser with the closure of their
  callback, and the log of what was handed to the collaborators (speech, toasts,
  notifications, window events; titles and event names only).
\<close>

record world =
  st :: nav_state
  watchId :: "nat option"
  lastVoiceAlert :: string
  lastDistanceAlert :: int
  timers :: "timer list"
  geolocation :: bool
  watches :: "(nat \<times> nav_state) list"
  watchCounter :: nat
  spoken :: "string list"
  toasts :: "string list"
  notifications :: "string list"
  events :: "string list"

definition speak :: "string \<Rightarrow> world \<Rightarrow> world" where
  "speak message w = w\<lparr>spoken := spoken w @ [message]\<rparr>"

definition toast :: "string \<Rightarrow> world \<Rightarrow> world" where
  "toast title w = w\<lparr>toasts := toasts w @ [title]\<rparr>"

definition addNotification :: "string \<Rightarrow> world \<Rightarrow> world" where
  "addNotification title w = w\<lparr>notifications := notifications w @ [title]\<rparr>"

definition dispatchEvent :: "string \<Rightarrow> world \<Rightarrow> world" where
  "dispatchEvent e w = w\<lparr>events := events w @ [e]\<rparr>"

definition setTimeout :: "callback \<Rightarrow> nat \<Rightarrow> world \<Rightarrow> world" where
  "setTimeout cb ms w = w\<lparr>timers := timers w @ [(cb, ms)]\<rparr>"

definition clearWatch :: "nat \<Rightarrow> world \<Rightarrow> world" where
  "clearWatch i w = w\<lparr>watches := filter (\<lambda>(j, c). j \<noteq> i) (watches w)\<rparr>"

definition setIsNavigating :: "bool \<Rightarrow> world \<Rightarrow> world" where
  "setIsNavigating v w = w\<lparr>st := (st w)\<lparr>isNavigating := v\<rparr>\<rparr>"

definition setActiveRoute :: "route option \<Rightarrow> world \<Rightarrow> world" where
  "setActiveRoute v w = w\<lparr>st := (st w)\<lparr>activeRoute := v\<rparr>\<rparr>"

definition setOrigin :: "location option \<Rightarrow> world \<Rightarrow> world" where
  "setOrigin v w = w\<lparr>st := (st w)\<lparr>origin := v\<rparr>\<rparr>"

definition setDestination :: "location option \<Rightarrow> world \<Rightarrow> world" where
  "setDestination v w = w\<lparr>st := (st w)\<lparr>destination := v\<rparr>\<rparr>"

definition setCurrentPosition :: "coord option \<Rightarrow> world \<Rightarrow> world" where
  "setCurrentPosition v w = w\<lparr>st := (st w)\<lparr>currentPosition := v\<rparr>\<rparr>"

definition setCurrentStep :: "nav_step option \<Rightarrow> world \<Rightarrow> world" where
  "setCurrentStep v w = w\<lparr>st := (st w)\<lparr>currentStep := v\<rparr>\<rparr>"

definition setNextStep :: "nav_step option \<Rightarrow> world \<Rightarrow> world" where
  "setNextStep v w = w\<lparr>st := (st w)\<lparr>nextStep := v\<rparr>\<rparr>"

definition setRemainingDistance :: "string \<Rightarrow> world \<Rightarrow> world" where
  "setRemainingDistance v w = w\<lparr>st := (st w)\<lparr>remainingDistance := v\<rparr>\<rparr>"

definition setRemainingTime :: "string \<Rightarrow> world \<Rightarrow> world" where
  "setRemainingTime v w = w\<lparr>st := (st w)\<lparr>remainingTime := v\<rparr>\<rparr>"

definition setProgress :: "jsnum \<Rightarrow> world \<Rightarrow> world" where
  "setProgress v w = w\<lparr>st := (st w)\<lparr>progress := v\<rparr>\<rparr>"

text \<open>
  The context's own \<open>generateNavigationSteps\<close> copies the five fields of every
  detailed step.
\<close>

definition generateNavigationSteps :: "coord list \<Rightarrow> nav_step list" where
  "generateNavigationSteps path =
     map (\<lambda>step. \<lparr>instruction = instruction step, distance = distance step,
                   coordinates = coordinates step, bearing = bearing step,
                   maneuver = maneuver step\<rparr>)
       (generateDetailedNavigationSteps path)"

text \<open>
  \<open>setCurrentStep(steps[0])\<close> and \<open>setNextStep(...)\<close> when there are steps; nothing
  otherwise.
\<close>

definition setSteps :: "nav_step list \<Rightarrow> world \<Rightarrow> world" where
  "setSteps steps w =
     (case steps of
        [] \<Rightarrow> w
      | s0 # others \<Rightarrow>
          setNextStep (case others of [] \<Rightarrow> None | s1 # rest \<Rightarrow> Some s1)
            (setCurrentStep (Some s0) w))"

definition startPositionTracking :: "nav_state \<Rightarrow> world \<Rightarrow> world" where
  "startPositionTracking c w =
     (if \<not> geolocation w then toast ''Error'' w
      else (let w = (case watchId w of None \<Rightarrow> w | Some i \<Rightarrow> clearWatch i w);
                i = watchCounter w
            in w\<lparr>watchId := Some i, watches := watches w @ [(i, c)],
                 watchCounter := Suc i\<rparr>))"

definition startNavigation :: "nav_state \<Rightarrow> route \<Rightarrow> location \<Rightarrow> location \<Rightarrow> world \<Rightarrow> world" where
  "startNavigation c rt originLoc destLoc w =
     (let w = setActiveRoute (Some rt) w;
          w = setOrigin (Some originLoc) w;
          w = setDestination (Some destLoc) w;
          w = setIsNavigating True w;
          w = setRemainingDistance (route_distance rt) w;
          w = setRemainingTime (route_duration rt) w;
          w = setProgress (Num 0) w;
          w = setSteps (generateNavigationSteps (route_path rt)) w;
          w = startPositionTracking c w;
          w = (if voiceEnabled c
               then speak (''Starting navigation. '' @ route_distance rt
                      @ '' to destination. Estimated arrival time: ''
                      @ route_duration rt @ ''.'') w
               else w);
          w = toast ''Navigation Started'' w;
          w = addNotification ''Navigation Started'' w
      in dispatchEvent ''navigationStarted'' w)"

definition stopNavigation :: "nav_state \<Rightarrow> world \<Rightarrow> world" where
  "stopNavigation c w =
     (let w = (case watchId w of
                 None \<Rightarrow> w
               | Some i \<Rightarrow> (clearWatch i w)\<lparr>watchId := None\<rparr>);
          w = setIsNavigating False w;
          w = setActiveRoute None w;
          w = setCurrentStep None w;
          w = setNextStep None w;
          w = (if voiceEnabled c then speak ''Navigation stopped.'' w else w);
          w = toast ''Navigation Stopped'' w;
          w = addNotification ''Navigation Stopped'' w
      in dispatchEvent ''navigationStopped'' w)"

subsection \<open>Progress on a position update\<close>

text \<open>
  The running minimum of the two scans over the route path starts at
  \<open>Number.POSITIVE_INFINITY\<close>; a distance that is \<open>NaN\<close> is below nothing and is
  passed over.
\<close>

fun closest_point :: "coord \<Rightarrow> coord list \<Rightarrow> nat \<Rightarrow> jsnum \<Rightarrow> nat \<Rightarrow> jsnum \<times> nat" where
  "closest_point position [] i minDistance closestPointIndex = (minDistance, closestPointIndex)"
| "closest_point position (p # ps) i minDistance closestPointIndex =
     (if js_less (calculateDistance position p) minDistance
      then closest_point position ps (Suc i) (calculateDistance position p) i
      else closest_point position ps (Suc i) minDistance closestPointIndex)"

definition announce_step :: "nav_state \<Rightarrow> nav_step \<Rightarrow> nav_step \<Rightarrow> world \<Rightarrow> world" where
  "announce_step c old newCurrentStep w =
     (if voiceEnabled c \<and> instruction newCurrentStep \<noteq> instruction old
      then (let w = (if maneuver newCurrentStep \<noteq> ''''
                        \<and> maneuver newCurrentStep \<noteq> ''straight''
                        \<and> maneuver newCurrentStep \<noteq> ''arrive''
                     then speak (''In '' @ distance newCurrentStep @ '', ''
                            @ instruction newCurrentStep) w
                     else speak (instruction newCurrentStep) w)
            in w\<lparr>lastVoiceAlert := instruction newCurrentStep\<rparr>)
      else w)"

definition updateNavigationStep :: "nav_state \<Rightarrow> coord \<Rightarrow> world \<Rightarrow> world" where
  "updateNavigationStep c position w =
     (case (activeRoute c, currentStep c) of
        (Some rt, Some cur) \<Rightarrow>
          (let routePath = route_path rt;
               closestPointIndex = snd (closest_point position routePath 0 PosInf 0)
           in if closestPointIndex > 0
                 \<and> coordinates cur = routePath ! (closestPointIndex - 1)
              then (case generateNavigationSteps (drop closestPointIndex routePath) of
                      [] \<Rightarrow> w
                    | newCurrentStep # others \<Rightarrow>
                        announce_step c cur newCurrentStep
                          (setSteps (newCurrentStep # others) w))
              else w)
      | _ \<Rightarrow> w)"

text \<open>
  The milestones of the \<open>low\<close> frequency, each with the text a template string prints
  for it.
\<close>

definition milestones :: "(real \<times> string) list" where
  "milestones =
     [(10, ''10''), (5, ''5''), (3, ''3''), (2, ''2''), (1, ''1''), (0.5, ''0.5''), (0.2, ''0.2'')]"

definition remaining_message :: "real \<Rightarrow> string" where
  "remaining_message d = toFixed1 d @ '' miles remaining to your destination.''"

text \<open>
  The text to announce at a finite remaining distance, if any, for a frequency; at a
  distance that is not finite every test of the three branches is false.
\<close>

definition announcement_at :: "frequency \<Rightarrow> real \<Rightarrow> string option" where
  "announcement_at f d =
     (case f of
        High \<Rightarrow>
          if \<bar>of_int (js_round (d * 2)) / 2 - d\<bar> < 0.05
             \<or> (d \<le> 5 \<and> \<bar>of_int (js_round d) - d\<bar> < 0.05)
          then Some (remaining_message d) else None
      | Medium \<Rightarrow>
          if \<bar>of_int (js_round d) - d\<bar> < 0.05
             \<or> (d \<le> 3 \<and> \<bar>of_int (js_round (d * 2)) / 2 - d\<bar> < 0.05)
          then Some (remaining_message d) else None
      | Low \<Rightarrow>
          (case find (\<lambda>(milestone, label). \<bar>d - milestone\<bar> < 0.05) milestones of
             None \<Rightarrow> None
           | Some (milestone, label) \<Rightarrow>
               Some (label @ '' '' @ (if milestone = 1 then ''mile'' else ''miles'')
                     @ '' remaining to your destination.''))
      | Off \<Rightarrow> None)"

definition distance_announcement :: "frequency \<Rightarrow> jsnum \<Rightarrow> string option" where
  "distance_announcement f distanceToDestination =
     (case distanceToDestination of Num d \<Rightarrow> announcement_at f d | _ \<Rightarrow> None)"

definition checkDistanceAnnouncement :: "nav_state \<Rightarrow> jsnum \<Rightarrow> int \<Rightarrow> world \<Rightarrow> world" where
  "checkDistanceAnnouncement c distanceToDestination now w =
     (if \<not> voiceEnabled c \<or> distanceAlertFrequency c = Off then w
      else if now - lastDistanceAlert w < 30000 then w
      else (case distance_announcement (distanceAlertFrequency c) distanceToDestination of
              None \<Rightarrow> w
            | Some message \<Rightarrow>
                (speak message w)\<lparr>lastDistanceAlert := now, lastVoiceAlert := ''distance''\<rparr>))"

definition checkUpcomingTurn :: "nav_state \<Rightarrow> coord \<Rightarrow> world \<Rightarrow> world" where
  "checkUpcomingTurn c position w =
     (case (currentStep c, nextStep c) of
        (Some cur, Some nxt) \<Rightarrow>
          if \<not> voiceEnabled c \<or> maneuver nxt = ''straight'' \<or> maneuver nxt = ''arrive'' then w
          else (let distanceToTurn = calculateDistance position (coordinates nxt)
                in if js_less distanceToTurn (Num 0.2)
                      \<and> lastVoiceAlert w \<noteq> ''upcoming_'' @ maneuver nxt
                   then (speak (''In 0.2 miles, '' @ instruction nxt) w)
                          \<lparr>lastVoiceAlert := ''upcoming_'' @ maneuver nxt\<rparr>
                   else if js_less distanceToTurn (Num 0.5)
                           \<and> lastVoiceAlert w \<noteq> ''prepare_'' @ maneuver nxt
                   then (speak (''In half a mile, '' @ instruction nxt) w)
                          \<lparr>lastVoiceAlert := ''prepare_'' @ maneuver nxt\<rparr>
                   else w)
      | _ \<Rightarrow> w)"

fun min_distance :: "coord \<Rightarrow> coord list \<Rightarrow> jsnum \<Rightarrow> jsnum" where
  "min_distance position [] minDistance = minDistance"
| "min_distance position (p # ps) minDistance =
     (if js_less (calculateDistance position p) minDistance
      then min_distance position ps (calculateDistance position p)
      else min_distance position ps minDistance)"

text \<open>
  \<open>minDistance > 0.1\<close>, where the minimum over an empty path, or over distances that
  are all \<open>NaN\<close>, is still infinite.
\<close>

definition off_route :: "coord \<Rightarrow> coord list \<Rightarrow> bool" where
  "off_route position routePath = js_less (Num 0.1) (min_distance position routePath PosInf)"

definition checkIfOffRoute :: "nav_state \<Rightarrow> coord \<Rightarrow> world \<Rightarrow> world" where
  "checkIfOffRoute c position w =
     (case activeRoute c of
        None \<Rightarrow> w
      | Some rt \<Rightarrow>
          if off_route position (route_path rt)
          then (let w = (if voiceEnabled c \<and> lastVoiceAlert w \<noteq> ''off-route''
                         then (speak ''You appear to be off route. Recalculating.'' w)
                                \<lparr>lastVoiceAlert := ''off-route''\<rparr>
                         else w);
                    w = toast ''Off Route'' w;
                    w = addNotification ''Off Route'' w
                in setTimeout (CallRecalculateRoute c) 3000 w)
          else w)"

definition arrival :: "nav_state \<Rightarrow> world \<Rightarrow> world" where
  "arrival c w =
     (let w = (if voiceEnabled c \<and> lastVoiceAlert w \<noteq> ''arrived''
               then (speak ''You have arrived at your destination.'' w)
                      \<lparr>lastVoiceAlert := ''arrived''\<rparr>
               else w);
          w = toast ''Arrived!'' w;
          w = addNotification ''Arrived!'' w
      in setTimeout (CallStopNavigation c) 5000 w)"

text \<open>
  The two numbers that a position update computes from the route's totals and the
  distance to the destination: the remaining time in minutes, as printed, and the
  progress in percent.
\<close>

definition newRemainingTime :: "route \<Rightarrow> jsnum \<Rightarrow> string" where
  "newRemainingTime rt distanceToDestination =
     (let totalDistance = parseFloat (remove_first '' miles'' (route_distance rt));
          totalTime = parseInt (remove_first '' mins'' (route_duration rt))
      in show_rounded
           (js_max (Num 1)
              (js_round_num
                 (js_mul totalTime (js_div distanceToDestination totalDistance))))
         @ '' mins'')"

definition newProgress :: "route \<Rightarrow> jsnum \<Rightarrow> jsnum" where
  "newProgress rt distanceToDestination =
     (let totalDistance = parseFloat (remove_first '' miles'' (route_distance rt))
      in js_min (Num 100)
           (js_max (Num 0)
              (js_sub (Num 100)
                 (js_mul (js_div distanceToDestination totalDistance) (Num 100)))))"

definition updateNavigationProgress :: "nav_state \<Rightarrow> coord \<Rightarrow> int \<Rightarrow> world \<Rightarrow> world" where
  "updateNavigationProgress c position now w =
     (case (activeRoute c, destination c) of
        (Some rt, Some dest) \<Rightarrow>
          (let distanceToDestination = calculateDistance position (loc_coordinates dest);
               w = setRemainingDistance (toFixed1_num distanceToDestination @ '' miles'') w;
               w = setRemainingTime (newRemainingTime rt distanceToDestination) w;
               w = setProgress (newProgress rt distanceToDestination) w;
               w = updateNavigationStep c position w;
               w = checkDistanceAnnouncement c distanceToDestination now w;
               w = checkUpcomingTurn c position w;
               w = (if js_less distanceToDestination (Num 0.05) then arrival c w else w);
               w = checkIfOffRoute c position w
           in dispatchEvent ''navigationUpdated'' w)
      | _ \<Rightarrow> w)"

definition updateUserPosition :: "nav_state \<Rightarrow> coord \<Rightarrow> int \<Rightarrow> world \<Rightarrow> world" where
  "updateUserPosition c position now w =
     (let w = setCurrentPosition (Some position) w;
          w = (if isNavigating c \<and> activeRoute c \<noteq> None
               then updateNavigationProgress c position now w else w)
      in dispatchEvent ''userPositionUpdated'' w)"

text \<open>The two callbacks of the browser's position watch.\<close>

definition watch_position :: "nav_state \<Rightarrow> coord \<Rightarrow> int \<Rightarrow> world \<Rightarrow> world" where
  "watch_position c newPosition now w =
     (let w = setCurrentPosition (Some newPosition) w
      in if isNavigating c \<and> activeRoute c \<noteq> None
         then updateNavigationProgress c newPosition now w else w)"

definition watch_error :: "world \<Rightarrow> world" where
  "watch_error w = addNotification ''Location Error'' (toast ''Location Error'' w)"

subsection \<open>Recalculation\<close>

definition simulateNewRoute :: "location \<Rightarrow> location \<Rightarrow> nat \<Rightarrow> route" where
  "simulateNewRoute org dest random =
     (let midLng = fst (loc_coordinates org)
                    + (fst (loc_coordinates dest) - fst (loc_coordinates org)) * 0.4;
          midLat = snd (loc_coordinates org)
                    + (snd (loc_coordinates dest) - snd (loc_coordinates org)) * 0.4;
          miles = calculateDistance (loc_coordinates org) (loc_coordinates dest)
      in \<lparr>route_id = random,
          route_name = ''Recalculated Route'',
          route_duration = show_rounded (js_round_num (js_mul miles (Num 2))) @ '' mins'',
          route_distance = toFixed1_num miles @ '' miles'',
          trafficLevel = ''moderate'',
          incidents = 0,
          route_path = [loc_coordinates org, (midLng, midLat), loc_coordinates dest]\<rparr>)"

text \<open>
  \<open>recalculateRoute\<close> is asynchronous. Up to its \<open>await\<close> it runs at once: the guard
  returns, which resolves the promise, or a timeout of 1500 ms is set that resumes the
  function. The rest runs when that timeout fires; \<open>random\<close> is the value of
  \<open>Math.floor(Math.random() * 1000)\<close> then. No operation of the body throws in this
  model, so the \<open>catch\<close> branch, which rejects, is never taken.
\<close>

definition recalculateRoute :: "nav_state \<Rightarrow> world \<Rightarrow> promise \<times> world" where
  "recalculateRoute c w =
     (case (currentPosition c, destination c) of
        (Some pos, Some dest) \<Rightarrow>
          (let newOrigin = \<lparr>loc_name = ''Current Location'', loc_coordinates = pos\<rparr>
           in (Pending, setTimeout (ResumeRecalculate c newOrigin dest) 1500 w))
      | _ \<Rightarrow> (Resolved, w))"

definition recalculate_resume :: "nav_state \<Rightarrow> location \<Rightarrow> location \<Rightarrow> nat \<Rightarrow> world \<Rightarrow> promise \<times> world" where
  "recalculate_resume c newOrigin dest random w =
     (let newRoute = simulateNewRoute newOrigin dest random;
          w = setActiveRoute (Some newRoute) w;
          w = setOrigin (Some newOrigin) w;
          w = setSteps (generateNavigationSteps (route_path newRoute)) w;
          w = setRemainingDistance (route_distance newRoute) w;
          w = setRemainingTime (route_duration newRoute) w;
          w = setProgress (Num 0) w;
          w = (if voiceEnabled c
               then (speak (''Route recalculated. '' @ route_distance newRoute
                       @ '' remaining. Estimated arrival in '' @ route_duration newRoute
                       @ ''.'') w)\<lparr>lastVoiceAlert := ''recalculated''\<rparr>
               else w);
          w = toast ''Route Recalculated'' w;
          w = addNotification ''Route Recalculated'' w
      in (Resolved, dispatchEvent ''routeRecalculated'' w))"

subsection \<open>Settings\<close>

definition toggleVoice :: "nav_state \<Rightarrow> world \<Rightarrow> world" where
  "toggleVoice c w =
     (let w = w\<lparr>st := (st w)\<lparr>voiceEnabled := \<not> voiceEnabled (st w)\<rparr>\<rparr>
      in if \<not> voiceEnabled c then speak ''Voice guidance enabled.'' w else w)"

definition toggle3DMode :: "nav_state \<Rightarrow> world \<Rightarrow> world" where
  "toggle3DMode c w =
     (let w = w\<lparr>st := (st w)\<lparr>is3DMode := \<not> is3DMode (st w)\<rparr>\<rparr>;
          w = dispatchEvent ''toggle3DMode'' w
      in toast (if \<not> is3DMode c then ''3D Mode Enabled'' else ''3D Mode Disabled'') w)"

definition setDistanceAlertFrequency :: "frequency \<Rightarrow> world \<Rightarrow> world" where
  "setDistanceAlertFrequency f w = w\<lparr>st := (st w)\<lparr>distanceAlertFrequency := f\<rparr>\<rparr>"

subsection \<open>Executions\<close>

definition run_callback :: "callback \<Rightarrow> nat \<Rightarrow> world \<Rightarrow> world" where
  "run_callback cb random w =
     (case cb of
        CallStopNavigation c \<Rightarrow> stopNavigation c w
      | CallRecalculateRoute c \<Rightarrow> snd (recalculateRoute c w)
      | ResumeRecalculate c newOrigin dest \<Rightarrow> snd (recalculate_resume c newOrigin dest random w))"

text \<open>The \<open>i\<close>-th pending timeout fires: it leaves the list and its function runs.\<close>

definition fire_timer :: "nat \<Rightarrow> nat \<Rightarrow> world \<Rightarrow> world" where
  "fire_timer i random w =
     (if i < length (timers w)
      then run_callback (fst (timers w ! i)) random
             (w\<lparr>timers := take i (timers w) @ drop (Suc i) (timers w)\<rparr>)
      else w)"

text \<open>
  What can happen to the component. A call from the user interface uses the functions
  of the latest render, so its closure is the current state; a timeout and a position
  watch carry the closure they were created with.
\<close>

datatype event =
    Start route location location
  | Stop
  | Recalculate
  | PositionUpdate coord int
  | Fire nat nat
  | WatchPosition nat coord int
  | ToggleVoice
  | SetFrequency frequency

definition step :: "event \<Rightarrow> world \<Rightarrow> world" where
  "step e w =
     (case e of
        Start rt originLoc destLoc \<Rightarrow> startNavigation (st w) rt originLoc destLoc w
      | Stop \<Rightarrow> stopNavigation (st w) w
      | Recalculate \<Rightarrow> snd (recalculateRoute (st w) w)
      | PositionUpdate position now \<Rightarrow> updateUserPosition (st w) position now w
      | Fire i random \<Rightarrow> fire_timer i random w
      | WatchPosition i position now \<Rightarrow>
          (case map_of (watches w) i of
             None \<Rightarrow> w
           | Some c \<Rightarrow> watch_position c position now w)
      | ToggleVoice \<Rightarrow> toggleVoice (st w) w
      | SetFrequency f \<Rightarrow> setDistanceAlertFrequency f w)"

definition run :: "event list \<Rightarrow> world \<Rightarrow> world" where
  "run es w = foldl (\<lambda>w e. step e w) w es"

text \<open>The first render of the provider, in a browser with or without geolocation.\<close>

definition initial_state :: nav_state where
  "initial_state =
     \<lparr>isNavigating = False, activeRoute = None, origin = None, destination = None,
      currentPosition = None, currentStep = None, nextStep = None,
      remainingDistance = '''', remainingTime = '''', progress = Num 0,
      voiceEnabled = True, is3DMode = False, distanceAlertFrequency = Medium\<rparr>"

definition initial_world :: "bool \<Rightarrow> world" where
  "initial_world geo =
     \<lparr>st = initial_state, watchId = None, lastVoiceAlert = '''', lastDistanceAlert = 0,
      timers = [], geolocation = geo, watches = [], watchCounter = 0,
      spoken = [], toasts = [], notifications = [], events = []\<rparr>"

section \<open>Notions used to state the properties\<close>



text \<open>
  The times of the distance alerts of an execution. A distance alert stores its time in
  \<open>lastDistanceAlert\<close>, and nothing else writes that ref, so an event fires a
  distance alert exactly when it changes the ref, to the time of the alert.
\<close>

fun alert_times :: "event list \<Rightarrow> world \<Rightarrow> int list" where
  "alert_times [] w = []"
| "alert_times (e # es) w =
     (if lastDistanceAlert (step e w) \<noteq> lastDistanceAlert w
      then lastDistanceAlert (step e w) # alert_times es (step e w)
      else alert_times es (step e w))"

subsection \<open>Example inputs\<close>

text \<open>
  A route of one degree along the equator, from (0, 0) east to (1, 0), and a route that
  goes three degrees east and comes back.
\<close>

definition place_west :: location where
  "place_west = \<lparr>loc_name = ''West'', loc_coordinates = (0, 0)\<rparr>"

definition place_east :: location where
  "place_east = \<lparr>loc_name = ''East'', loc_coordinates = (1, 0)\<rparr>"

definition east_route :: route where
  "east_route =
     \<lparr>route_id = 1, route_name = ''Fastest Route'', route_duration = ''138 mins'',
      route_distance = ''69.0 miles'', trafficLevel = ''low'', incidents = 0,
      route_path = [(0, 0), (1, 0)]\<rparr>"

definition round_trip :: route where
  "round_trip =
     \<lparr>route_id = 2, route_name = ''Round Trip'', route_duration = ''829 mins'',
      route_distance = ''414.3 miles'', trafficLevel = ''low'', incidents = 0,
      route_path = [(0, 0), (3, 0), (0, 0)]\<rparr>"

text \<open>
  A closure of a render in which the round trip is being navigated from its first step,
  with voice guidance and without distance alerts.
\<close>

definition round_trip_closure :: "nav_state \<Rightarrow> bool" where
  "round_trip_closure c =
     (isNavigating c \<and> activeRoute c = Some round_trip \<and> destination c = Some place_west \<and>
      currentStep c = Some (travel_step None (0, 0) (3, 0)) \<and>
      nextStep c = Some (travel_step (Some (Num 90)) (3, 0) (0, 0)) \<and>
      voiceEnabled c \<and> distanceAlertFrequency c = Off)"

text \<open>The sessions just started on the two routes.\<close>

definition east_started :: world where
  "east_started = run [Start east_route place_west place_east] (initial_world True)"

definition round_trip_started :: world where
  "round_trip_started =
     run [SetFrequency Off, Start round_trip place_west place_west] (initial_world True)"

section \<open>Properties of the geo-math utilities\<close>

lemma js_rem_nonneg_range:
  assumes "0 \<le> a" "0 < b"
  shows "0 \<le> js_rem a b \<and> js_rem a b < b"
proof -
  have q: "0 \<le> a / b" using assms by simp
  have eq: "js_rem a b = a - b * of_int \<lfloor>a / b\<rfloor>"
    using q by (simp add: js_rem_def js_trunc_def)
  have l: "of_int \<lfloor>a / b\<rfloor> \<le> a / b" by (rule of_int_floor_le)
  have u: "a / b < of_int \<lfloor>a / b\<rfloor> + 1" by linarith
  have ba: "b * (a / b) = a" using assms(2) by simp
  have "b * of_int \<lfloor>a / b\<rfloor> \<le> b * (a / b)"
    using assms(2) by (intro mult_left_mono l) simp
  moreover have "b * (a / b) < b * (of_int \<lfloor>a / b\<rfloor> + 1)"
    using assms(2) by (intro mult_strict_left_mono u)
  ultimately show ?thesis unfolding eq ba by (simp add: algebra_simps)
qed

lemma atan2_range: "- pi < atan2 y x \<and> atan2 y x \<le> pi"
proof -
  have a: "- (pi / 2) < arctan (y / x)" "arctan (y / x) < pi / 2"
    by (rule arctan_lbound, rule arctan_ubound)
  have neg: "x < 0 \<Longrightarrow> y < 0 \<Longrightarrow> 0 < arctan (y / x)"
    by (simp add: divide_neg_neg)
  have pos: "x < 0 \<Longrightarrow> 0 \<le> y \<Longrightarrow> arctan (y / x) \<le> 0"
    by (simp add: divide_nonneg_neg arctan_le_zero_iff)
  show ?thesis
    using a neg pos pi_gt_zero unfolding atan2_def by (auto simp: not_less) 
qed

lemma bearing_value_range: "0 \<le> bearing_value p q \<and> bearing_value p q < 360"
proof -
  define y where "y = sin (fst q * pi / 180 - fst p * pi / 180) * cos (snd q * pi / 180)"
  define x where "x = cos (snd p * pi / 180) * sin (snd q * pi / 180)
      - sin (snd p * pi / 180) * cos (snd q * pi / 180) * cos (fst q * pi / 180 - fst p * pi / 180)"
  have eq: "bearing_value p q = js_rem (atan2 y x * 180 / pi + 360) 360"
    by (simp add: bearing_value_def Let_def x_def y_def)
  have "- pi < atan2 y x" using atan2_range by blast
  then have "- 180 < atan2 y x * 180 / pi"
    by (simp add: pos_less_divide_eq) 
  then have "0 \<le> atan2 y x * 180 / pi + 360" by linarith
  then show ?thesis unfolding eq by (intro js_rem_nonneg_range) simp_all
qed

lemma direction_index_range:
  assumes "0 \<le> b"
  shows "0 \<le> direction_index b \<and> direction_index b < 8"
proof -
  define n where "n = js_round (b / 45)"
  have n0: "0 \<le> n" using assms by (simp add: n_def js_round_def)
  have q: "(0::real) \<le> of_int n / of_int 8" using n0 by simp
  have "js_rem_int n 8 = n - 8 * \<lfloor>(of_int n :: real) / of_int 8\<rfloor>"
    using q by (simp add: js_rem_int_def js_trunc_def)
  also have "\<lfloor>(of_int n :: real) / of_int 8\<rfloor> = n div 8"
    using floor_divide_of_int_eq[of n 8, where ?'a = real] by simp
  finally have "js_rem_int n 8 = n mod 8" by (simp add: minus_mult_div_eq_mod)
  then show ?thesis using n0 by (simp add: direction_index_def n_def)
qed

lemma atan2_sin_cos:
  assumes "0 \<le> t" "t \<le> pi / 2"
  shows "atan2 (sin t) (cos t) = t"
proof (cases "t = pi / 2")
  case True
  show ?thesis unfolding True by (simp add: atan2_def)
next
  case False
  with assms have t: "- (pi / 2) < t" "t < pi / 2" by simp_all
  then have "0 < cos t" by (rule cos_gt_zero_pi)
  moreover have "arctan (sin t / cos t) = t"
    using arctan_tan[OF t] by (simp add: tan_def)
  ultimately show ?thesis by (simp add: atan2_def)
qed

lemma haversine_angle:
  assumes "\<bar>x\<bar> \<le> pi / 2"
  shows "atan2 (sqrt ((sin x)\<^sup>2)) (sqrt (1 - (sin x)\<^sup>2)) = \<bar>x\<bar>"
proof -
  have c: "0 \<le> cos x" using assms by (intro cos_ge_zero) (simp_all add: abs_le_iff)
  have s: "\<bar>sin x\<bar> = sin \<bar>x\<bar>"
  proof (cases "0 \<le> x")
    case True
    then have "0 \<le> sin x" using assms by (intro sin_ge_zero) simp_all
    with True show ?thesis by simp
  next
    case False
    then have "0 \<le> sin (- x)" using assms by (intro sin_ge_zero) simp_all
    with False show ?thesis by simp
  qed
  have "1 - (sin x)\<^sup>2 = (cos x)\<^sup>2" by (simp add: cos_squared_eq)
  then have "sqrt (1 - (sin x)\<^sup>2) = cos \<bar>x\<bar>" using c by simp
  moreover have "sqrt ((sin x)\<^sup>2) = sin \<bar>x\<bar>" using s by simp
  ultimately show ?thesis using atan2_sin_cos[of "\<bar>x\<bar>"] assms by simp
qed

lemma equator_distance:
  assumes "\<bar>b - a\<bar> \<le> 180"
  shows "distance_value (a, 0) (b, 0) = 3956 * pi / 180 * \<bar>b - a\<bar>"
proof -
  define x where "x = (b * pi / 180 - a * pi / 180) / 2"
  have x: "x = (b - a) * pi / 360" by (simp add: x_def field_simps)
  have "\<bar>x\<bar> = \<bar>b - a\<bar> * pi / 360" unfolding x by (simp add: abs_mult)
  moreover have "\<bar>b - a\<bar> * pi \<le> 180 * pi" using assms by (intro mult_right_mono) simp_all
  ultimately have bound: "\<bar>x\<bar> \<le> pi / 2" by linarith
  have "distance_value (a, 0) (b, 0)
          = 3956 * (2 * atan2 (sqrt ((sin x)\<^sup>2)) (sqrt (1 - (sin x)\<^sup>2)))"
    by (simp add: distance_value_def Let_def x_def)
  also have "\<dots> = 3956 * (2 * \<bar>x\<bar>)" by (simp only: haversine_angle[OF bound])
  also have "\<dots> = 3956 * pi / 180 * \<bar>b - a\<bar>" unfolding x by (simp add: abs_mult)
  finally show ?thesis .
qed

lemma distance_value_same: "distance_value p p = 0"
  by (simp add: distance_value_def atan2_def)

lemma js_rem_360: "js_rem 360 360 = 0" "js_rem 450 360 = 90" "js_rem 270 360 = 270" "js_rem 540 360 = 180"
  by (simp_all add: js_rem_def js_trunc_def)

lemma bearing_value_same: "bearing_value p p = 0"
proof -
  have "cos (snd p * pi / 180) * sin (snd p * pi / 180)
          - sin (snd p * pi / 180) * cos (snd p * pi / 180) * cos 0 = 0"
    by simp
  moreover have "atan2 0 0 = 0" by (simp add: atan2_def)
  ultimately show ?thesis
    by (simp add: bearing_value_def js_rem_360)
qed

lemma bearing_east:
  assumes "a < b" "b - a < 180"
  shows "bearing_value (a, 0) (b, 0) = 90"
proof -
  have "0 < (b - a) * pi / 180" using assms by simp
  moreover have "(b - a) * pi < 180 * pi" using assms by (intro mult_strict_right_mono) simp_all
  ultimately have "0 < sin ((b - a) * pi / 180)" by (intro sin_gt_zero) simp_all
  then have "0 < sin (b * pi / 180 - a * pi / 180)" by (simp add: field_simps)
  then show ?thesis
    by (simp add: bearing_value_def Let_def atan2_def js_rem_360)
qed

lemma bearing_west:
  assumes "b < a" "a - b < 180"
  shows "bearing_value (a, 0) (b, 0) = 270"
proof -
  have "0 < (a - b) * pi / 180" using assms by simp
  moreover have "(a - b) * pi < 180 * pi" using assms by (intro mult_strict_right_mono) simp_all
  ultimately have "0 < sin ((a - b) * pi / 180)" by (intro sin_gt_zero) simp_all
  then have "sin (- ((a - b) * pi / 180)) < 0" by simp
  moreover have "- ((a - b) * pi / 180) = b * pi / 180 - a * pi / 180" by (simp add: field_simps)
  ultimately have "sin (b * pi / 180 - a * pi / 180) < 0" by simp
  then show ?thesis
    by (simp add: bearing_value_def Let_def atan2_def js_rem_360)
qed

lemma small_no_overflow: "\<bar>x\<bar> \<le> 360 \<Longrightarrow> \<not> overflows (x * pi)"
proof -
  assume a: "\<bar>x\<bar> \<le> 360"
  have "\<bar>x * pi\<bar> = \<bar>x\<bar> * pi" by (simp add: abs_mult)
  also have "\<dots> \<le> 360 * 4"
    using a pi_less_4 by (intro mult_mono) simp_all
  finally have "\<bar>x * pi\<bar> \<le> 1440" by simp
  moreover have "(1440::real) < 2 ^ 1024 - 2 ^ 970" by simp
  ultimately show ?thesis by (simp add: overflows_def)
qed

lemma small_in_range:
  "\<bar>fst p\<bar> \<le> 360 \<Longrightarrow> \<bar>snd p\<bar> \<le> 360 \<Longrightarrow> \<not> radians_overflow p"
  by (simp add: radians_overflow_def small_no_overflow)

lemma calculateBearing_small:
  "\<bar>fst p\<bar> \<le> 360 \<Longrightarrow> \<bar>snd p\<bar> \<le> 360 \<Longrightarrow> \<bar>fst q\<bar> \<le> 360 \<Longrightarrow> \<bar>snd q\<bar> \<le> 360 \<Longrightarrow>
   calculateBearing p q = Num (bearing_value p q)"
  by (simp add: calculateBearing_def small_in_range)

lemma calculateDistance_small:
  "\<bar>fst p\<bar> \<le> 360 \<Longrightarrow> \<bar>snd p\<bar> \<le> 360 \<Longrightarrow> \<bar>fst q\<bar> \<le> 360 \<Longrightarrow> \<bar>snd q\<bar> \<le> 360 \<Longrightarrow>
   calculateDistance p q = Num (distance_value p q)"
  by (simp add: calculateDistance_def small_in_range)

lemma calculateBearing_cases:
  "calculateBearing p q = NaN \<or> calculateBearing p q = Num (bearing_value p q)"
  by (simp add: calculateBearing_def)

lemma calculateDistance_cases:
  "calculateDistance p q = NaN \<or> calculateDistance p q = Num (distance_value p q)"
  by (simp add: calculateDistance_def)

lemma bearing_east_num:
  "a < b \<Longrightarrow> b - a < 180 \<Longrightarrow> \<bar>a\<bar> \<le> 360 \<Longrightarrow> \<bar>b\<bar> \<le> 360 \<Longrightarrow>
   calculateBearing (a, 0) (b, 0) = Num 90"
  by (simp add: calculateBearing_small bearing_east)

lemma bearing_west_num:
  "b < a \<Longrightarrow> a - b < 180 \<Longrightarrow> \<bar>a\<bar> \<le> 360 \<Longrightarrow> \<bar>b\<bar> \<le> 360 \<Longrightarrow>
   calculateBearing (a, 0) (b, 0) = Num 270"
  by (simp add: calculateBearing_small bearing_west)

lemma overflow_at_1e308: "radians_overflow (10 ^ 308, 0)"
proof -
  have "(2::real) ^ 1024 \<le> 2 * 10 ^ 308" by simp
  moreover have "2 * (10::real) ^ 308 \<le> 10 ^ 308 * pi"
    using pi_ge_two by simp
  ultimately have "(2::real) ^ 1024 - 2 ^ 970 \<le> \<bar>10 ^ 308 * pi\<bar>" by simp
  then show ?thesis by (simp add: radians_overflow_def overflows_def)
qed

section \<open>Properties of the instruction generator\<close>

lemma segment_steps_append:
  "segment_steps path prev (xs @ ys) =
     (xs @ fst (segment_steps path prev ys), snd (segment_steps path prev ys))"
proof (induction path prev ys arbitrary: xs rule: segment_steps.induct)
  case (1 current nxt rest prevBearing steps)
  show ?case
    using "1.IH"[of xs] by simp
qed simp_all

lemma segment_steps_Cons:
  "fst (segment_steps (current # nxt # rest) prev []) =
     travel_step prev current nxt
       # fst (segment_steps (nxt # rest) (Some (calculateBearing current nxt)) [])"
  using segment_steps_append[of "nxt # rest" "Some (calculateBearing current nxt)"
      "[travel_step prev current nxt]" "[]"]
  by simp

lemma segment_steps_length:
  "length (fst (segment_steps path prev steps)) = length steps + (length path - 1)"
  by (induction path prev steps rule: segment_steps.induct) simp_all

lemma segment_steps_nth:
  "i < length path - 1 \<Longrightarrow>
   \<exists>prev'. fst (segment_steps path prev []) ! i = travel_step prev' (path ! i) (path ! Suc i)"
proof (induction path arbitrary: prev i)
  case Nil
  then show ?case by simp
next
  case (Cons current path')
  show ?case
  proof (cases path')
    case Nil
    with Cons.prems show ?thesis by simp
  next
    case (Cons nxt rest)
    show ?thesis
    proof (cases i)
      case 0
      then show ?thesis unfolding Cons segment_steps_Cons by auto
    next
      case (Suc j)
      with Cons.prems Cons have "j < length path' - 1" by simp
      from Cons.IH[OF this] show ?thesis
        unfolding Cons segment_steps_Cons Suc by simp
    qed
  qed
qed

lemma generate_unfold:
  "2 \<le> length path \<Longrightarrow>
   generateDetailedNavigationSteps path =
     fst (segment_steps path None []) @ [arrival_step path (snd (segment_steps path None []))]"
  by (simp add: generateDetailedNavigationSteps_def split: prod.splits)

lemma travel_step_fields:
  "coordinates (travel_step prev a b) = a"
  "bearing (travel_step prev a b) = calculateBearing a b"
  "distance (travel_step prev a b) = toFixed1_num (calculateDistance a b) @ '' miles''"
  "maneuver (travel_step prev a b) = classify_maneuver prev (calculateBearing a b)"
  by (simp_all add: travel_step_def Let_def)

lemma maneuver_of_angle_cases: "maneuver_of_angle a \<in> travel_maneuvers"
  by (auto simp: maneuver_of_angle_def)

lemma classify_maneuver_cases: "classify_maneuver prev b \<in> travel_maneuvers"
  using maneuver_of_angle_cases
  by (simp add: classify_maneuver_def split: option.splits jsnum.splits)

lemma segment_steps_maneuvers:
  "\<forall>s \<in> set steps. maneuver s \<in> travel_maneuvers \<Longrightarrow>
   \<forall>s \<in> set (fst (segment_steps path prev steps)). maneuver s \<in> travel_maneuvers"
proof (induction path prev steps rule: segment_steps.induct)
  case (1 current nxt rest prevBearing steps)
  have "\<forall>s \<in> set (steps @ [travel_step prevBearing current nxt]).
          maneuver s \<in> travel_maneuvers"
    using "1.prems" classify_maneuver_cases[of prevBearing "calculateBearing current nxt"]
    by (simp add: travel_step_fields)
  from "1.IH"[OF this] show ?case by simp
qed simp_all

text \<open>
  Claim C6. A path of fewer than two points gives no steps. A path of at least two
  points gives as many steps as it has points: the step at every index \<open>i\<close> below
  the last is the travel step of the pair \<open>(path[i], path[i + 1])\<close>, and the last
  step is the arrival step: instruction "Arrive at your destination", distance
  "0 miles", maneuver "arrive", anchored at the last point of the path.
\<close>

theorem generateSteps_shape:
  "(length path < 2 \<longrightarrow> generateDetailedNavigationSteps path = []) \<and>
   (2 \<le> length path \<longrightarrow>
      length (generateDetailedNavigationSteps path) = length path \<and>
      (\<forall>i < length path - 1.
         \<exists>prev. generateDetailedNavigationSteps path ! i
                  = travel_step prev (path ! i) (path ! Suc i)) \<and>
      instruction (last (generateDetailedNavigationSteps path)) = ''Arrive at your destination'' \<and>
      distance (last (generateDetailedNavigationSteps path)) = ''0 miles'' \<and>
      maneuver (last (generateDetailedNavigationSteps path)) = ''arrive'' \<and>
      coordinates (last (generateDetailedNavigationSteps path)) = last path)"
proof (intro conjI impI)
  show "generateDetailedNavigationSteps path = []" if "length path < 2"
    using that by (simp add: generateDetailedNavigationSteps_def)
next
  assume len: "2 \<le> length path"
  note u = generate_unfold[OF len]
  show "length (generateDetailedNavigationSteps path) = length path"
    using len by (simp add: u segment_steps_length)
  show "\<forall>i < length path - 1.
         \<exists>prev. generateDetailedNavigationSteps path ! i
                  = travel_step prev (path ! i) (path ! Suc i)"
  proof (intro allI impI)
    fix i assume i: "i < length path - 1"
    then have "i < length (fst (segment_steps path None []))"
      by (simp add: segment_steps_length)
    then have "generateDetailedNavigationSteps path ! i = fst (segment_steps path None []) ! i"
      by (simp add: u nth_append)
    with segment_steps_nth[OF i, of None]
    show "\<exists>prev. generateDetailedNavigationSteps path ! i
                  = travel_step prev (path ! i) (path ! Suc i)" by simp
  qed
  show "instruction (last (generateDetailedNavigationSteps path)) = ''Arrive at your destination''"
    by (simp add: u arrival_step_def)
  show "distance (last (generateDetailedNavigationSteps path)) = ''0 miles''"
    by (simp add: u arrival_step_def)
  show "maneuver (last (generateDetailedNavigationSteps path)) = ''arrive''"
    by (simp add: u arrival_step_def)
  show "coordinates (last (generateDetailedNavigationSteps path)) = last path"
    by (simp add: u arrival_step_def)
qed

theorem generateSteps_shape_witness:
  "length [(0, 0), (1, 0), (0, 0) :: coord] = 3 \<and>
   generateDetailedNavigationSteps [(5, 7)] = [] \<and>
   length (generateDetailedNavigationSteps [(0, 0), (1, 0), (0, 0)]) = 3 \<and>
   (\<exists>prev. generateDetailedNavigationSteps [(0, 0), (1, 0), (0, 0)] ! 1
             = travel_step prev (1, 0) (0, 0)) \<and>
   instruction (last (generateDetailedNavigationSteps [(0, 0), (1, 0), (0, 0)]))
     = ''Arrive at your destination'' \<and>
   coordinates (last (generateDetailedNavigationSteps [(0, 0), (1, 0), (0, 0)])) = (0, 0)"
proof -
  have two: "2 \<le> length [(0, 0), (1, 0), (0, 0) :: coord]"
    and one: "length [(5, 7) :: coord] < 2" and i: "(1::nat) < length [(0, 0), (1, 0), (0, 0) :: coord] - 1"
    by simp_all
  from generateSteps_shape [of "[(0, 0), (1, 0), (0, 0)]"] two i
  have "\<exists>prev. generateDetailedNavigationSteps [(0, 0), (1, 0), (0, 0)] ! 1
             = travel_step prev ([(0, 0), (1, 0), (0, 0)] ! 1) ([(0, 0), (1, 0), (0, 0)] ! Suc 1)"
    by blast
  moreover from generateSteps_shape [of "[(0, 0), (1, 0), (0, 0)]"] two
  have "length (generateDetailedNavigationSteps [(0, 0), (1, 0), (0, 0)])
          = length [(0, 0), (1, 0), (0, 0) :: coord]"
    "instruction (last (generateDetailedNavigationSteps [(0, 0), (1, 0), (0, 0)]))
       = ''Arrive at your destination''"
    "coordinates (last (generateDetailedNavigationSteps [(0, 0), (1, 0), (0, 0)]))
       = last [(0, 0), (1, 0), (0, 0)]"
    by blast+
  moreover from generateSteps_shape [of "[(5, 7)]"] one
  have "generateDetailedNavigationSteps [(5, 7)] = []" by blast
  ultimately show ?thesis by simp
qed

text \<open>
  Claim C10. Whatever the path, every generated step carries one of the maneuvers
  straight, slight-right, slight-left, right, left or arrive, and none carries
  sharp-right, sharp-left or uturn: the tests for a turn beyond 30 degrees come first
  in the chain, so the later tests for 100 and 170 degrees are never reached by an
  angle that passes them.
\<close>

theorem generated_maneuvers:
  "\<forall>s \<in> set (generateDetailedNavigationSteps path).
     maneuver s \<in> {''straight'', ''slight-right'', ''slight-left'', ''right'', ''left'', ''arrive''}
     \<and> maneuver s \<noteq> ''sharp-right'' \<and> maneuver s \<noteq> ''sharp-left'' \<and> maneuver s \<noteq> ''uturn''"
proof (cases "2 \<le> length path")
  case True
  have "\<forall>s \<in> set (fst (segment_steps path None [])). maneuver s \<in> travel_maneuvers"
    by (rule segment_steps_maneuvers) simp
  then show ?thesis
    unfolding generate_unfold[OF True]
    by (auto simp: arrival_step_def)
next
  case False
  then show ?thesis by (simp add: generateDetailedNavigationSteps_def)
qed

theorem generated_maneuvers_witness:
  "generateDetailedNavigationSteps [(0, 0), (1, 0), (0, 0)] \<noteq> [] \<and>
   maneuver (generateDetailedNavigationSteps [(0, 0), (1, 0), (0, 0)] ! 1) \<noteq> ''uturn'' \<and>
   maneuver (generateDetailedNavigationSteps [(0, 0), (1, 0), (0, 0)] ! 1) \<noteq> ''sharp-left''"
proof -
  have len: "length (generateDetailedNavigationSteps [(0, 0), (1, 0), (0, 0)]) = 3"
    by (simp add: generate_unfold segment_steps_length)
  then have "generateDetailedNavigationSteps [(0, 0), (1, 0), (0, 0)] ! 1
               \<in> set (generateDetailedNavigationSteps [(0, 0), (1, 0), (0, 0)])"
    by (intro nth_mem) simp
  with generated_maneuvers [of "[(0, 0), (1, 0), (0, 0)]"] len show ?thesis
    by fastforce
qed

text \<open>
  Claim C1. The classification of the code at the angles of the claim: a turn of
  +45 degrees is "right" and one of +15 degrees is "slight-right", as the table says;
  but a turn of +175 degrees is "right", not "uturn", and one of +120 degrees is
  "right", not "sharp-right", because the test \<open>> 30\<close> comes first. A turn from
  bearing 350 to bearing 10 (20 degrees to the right) is "left": the remainder of a
  negative number is negative, so the angle is not brought into the range. On the
  out-and-back path from (0, 0) east to (1, 0) and back, the reversal is a "left".
\<close>

theorem maneuver_classification_at_claimed_angles:
  "classify_maneuver (Some (Num 0)) (Num 45) = ''right'' \<and>
   classify_maneuver (Some (Num 0)) (Num 15) = ''slight-right'' \<and>
   classify_maneuver (Some (Num 0)) (Num 175) = ''right'' \<and>
   classify_maneuver (Some (Num 0)) (Num 120) = ''right'' \<and>
   normalizedAngle 350 10 = - 340 \<and>
   classify_maneuver (Some (Num 350)) (Num 10) = ''left'' \<and>
   map bearing (generateDetailedNavigationSteps [(0, 0), (1, 0), (0, 0)])
     = [Num 90, Num 270, Num 270] \<and>
   map maneuver (generateDetailedNavigationSteps [(0, 0), (1, 0), (0, 0)])
     = [''straight'', ''left'', ''arrive'']"
  by (simp add: generateDetailedNavigationSteps_def travel_step_def arrival_step_def Let_def
      bearing_or_zero_def bearing_east_num bearing_west_num classify_maneuver_def
      normalizedAngle_def js_rem_def js_trunc_def maneuver_of_angle_def)

text \<open>
  Claim C9, as amended. A coordinate whose components are at most 360 in magnitude, as
  every longitude and latitude is, does not overflow when it is converted to radians.
  For every two coordinates that do not overflow, the bearing is a number in
  \<open>[0, 360)\<close>, and the direction of that bearing is one of the eight labels. For every
  bearing that is a number and not negative, the index \<open>round(bearing / 45) % 8\<close> lies
  in \<open>[0, 8)\<close> and the direction is the label at that index. When a coordinate
  overflows, the bearing is \<open>NaN\<close> and its direction is undefined.
\<close>

theorem bearing_range_and_direction_label:
  "(\<bar>fst a\<bar> \<le> 360 \<and> \<bar>snd a\<bar> \<le> 360 \<longrightarrow> \<not> radians_overflow a) \<and>
   (\<not> radians_overflow a \<and> \<not> radians_overflow b \<longrightarrow>
      (\<exists>v. calculateBearing a b = Num v \<and> 0 \<le> v \<and> v < 360 \<and>
           getDirectionFromBearing (calculateBearing a b)
             = Some (directions ! nat (direction_index v)) \<and>
           directions ! nat (direction_index v) \<in> set directions)) \<and>
   (0 \<le> x \<longrightarrow>
      0 \<le> direction_index x \<and> direction_index x < 8 \<and>
      getDirectionFromBearing (Num x) = Some (directions ! nat (direction_index x)) \<and>
      directions ! nat (direction_index x) \<in> set directions) \<and>
   (radians_overflow a \<or> radians_overflow b \<longrightarrow>
      calculateBearing a b = NaN \<and> getDirectionFromBearing (calculateBearing a b) = None)"
proof -
  have d: "0 \<le> direction_index y \<and> direction_index y < 8 \<and>
      getDirectionFromBearing (Num y) = Some (directions ! nat (direction_index y)) \<and>
      directions ! nat (direction_index y) \<in> set directions" if "0 \<le> y" for y
  proof -
    from direction_index_range[OF that]
    have i: "0 \<le> direction_index y" "direction_index y < 8" by simp_all
    then have "nat (direction_index y) < length directions" by (simp add: directions_def)
    then have "directions ! nat (direction_index y) \<in> set directions" by (rule nth_mem)
    moreover have "getDirectionFromBearing (Num y) = Some (directions ! nat (direction_index y))"
      using i by (simp add: getDirectionFromBearing_def array_get_def directions_def)
    ultimately show ?thesis using i by simp
  qed
  have r: "\<exists>v. calculateBearing a b = Num v \<and> 0 \<le> v \<and> v < 360 \<and>
           getDirectionFromBearing (calculateBearing a b)
             = Some (directions ! nat (direction_index v)) \<and>
           directions ! nat (direction_index v) \<in> set directions"
    if "\<not> radians_overflow a" "\<not> radians_overflow b"
  proof -
    have v: "calculateBearing a b = Num (bearing_value a b)"
      using that by (simp add: calculateBearing_def)
    from bearing_value_range[of a b] d[of "bearing_value a b"] show ?thesis
      unfolding v by blast
  qed
  have n: "calculateBearing a b = NaN \<and> getDirectionFromBearing (calculateBearing a b) = None"
    if "radians_overflow a \<or> radians_overflow b"
    using that by (auto simp: calculateBearing_def getDirectionFromBearing_def)
  from small_in_range[of a] r d[of x] n show ?thesis by blast
qed

theorem bearing_range_and_direction_label_witness:
  "\<bar>fst ((0, 0) :: coord)\<bar> \<le> 360 \<and> \<bar>snd ((0, 0) :: coord)\<bar> \<le> 360 \<and>
   \<not> radians_overflow (0, 0) \<and> \<not> radians_overflow (1, 0) \<and>
   calculateBearing (0, 0) (1, 0) = Num 90 \<and>
   (0::real) \<le> 90 \<and> direction_index 90 = 2 \<and>
   getDirectionFromBearing (Num 90) = Some ''east'' \<and>
   radians_overflow (10 ^ 308, 0) \<and>
   getDirectionFromBearing (calculateBearing (10 ^ 308, 0) (1, 0)) = None"
proof -
  have s: "\<not> radians_overflow (0, 0)" "\<not> radians_overflow (1, 0)"
    using bearing_range_and_direction_label [of "(0, 0)" "(0, 0)" 90]
      bearing_range_and_direction_label [of "(1, 0)" "(0, 0)" 90]
    by simp_all
  have e: "calculateBearing (0, 0) (1, 0) = Num 90" by (simp add: bearing_east_num)
  have i: "direction_index 90 = 2"
    by (simp add: direction_index_def js_round_def js_rem_int_def js_trunc_def)
  from bearing_range_and_direction_label [of "(0, 0)" "(1, 0)" 90] i
  have l: "getDirectionFromBearing (Num 90) = Some ''east''" by (simp add: directions_def)
  from overflow_at_1e308 bearing_range_and_direction_label [of "(10 ^ 308, 0)" "(1, 0)" 90]
  have o: "getDirectionFromBearing (calculateBearing (10 ^ 308, 0) (1, 0)) = None" by blast
  from s e i l o overflow_at_1e308 show ?thesis by simp
qed

text \<open>
  The claim as it is written covers every pair of coordinates with finite components.
  The longitude \<open>10^308\<close> is finite, its product with \<open>Math.PI\<close> is not, and the
  bearing from there is \<open>NaN\<close>, which is outside \<open>[0, 360)\<close> and has no direction.
\<close>

theorem bearing_of_overflowing_longitude:
  "calculateBearing (10 ^ 308, 0) (0, 0) = NaN \<and>
   getDirectionFromBearing (calculateBearing (10 ^ 308, 0) (0, 0)) = None"
  using overflow_at_1e308
  by (simp add: calculateBearing_def getDirectionFromBearing_def)

section \<open>Properties of the navigation session\<close>

subsection \<open>What each operation leaves alone\<close>

lemmas effect_defs =
  speak_def toast_def addNotification_def dispatchEvent_def setTimeout_def clearWatch_def
  setIsNavigating_def setActiveRoute_def setOrigin_def setDestination_def
  setCurrentPosition_def setCurrentStep_def setNextStep_def setRemainingDistance_def
  setRemainingTime_def setProgress_def

lemma setSteps_frame:
  "watchId (setSteps steps w) = watchId w"
  "lastVoiceAlert (setSteps steps w) = lastVoiceAlert w"
  "lastDistanceAlert (setSteps steps w) = lastDistanceAlert w"
  "timers (setSteps steps w) = timers w"
  "geolocation (setSteps steps w) = geolocation w"
  "watches (setSteps steps w) = watches w"
  "watchCounter (setSteps steps w) = watchCounter w"
  "spoken (setSteps steps w) = spoken w"
  "toasts (setSteps steps w) = toasts w"
  "notifications (setSteps steps w) = notifications w"
  "events (setSteps steps w) = events w"
  "progress (st (setSteps steps w)) = progress (st w)"
  "isNavigating (st (setSteps steps w)) = isNavigating (st w)"
  "activeRoute (st (setSteps steps w)) = activeRoute (st w)"
  "origin (st (setSteps steps w)) = origin (st w)"
  "destination (st (setSteps steps w)) = destination (st w)"
  "currentPosition (st (setSteps steps w)) = currentPosition (st w)"
  "remainingDistance (st (setSteps steps w)) = remainingDistance (st w)"
  "remainingTime (st (setSteps steps w)) = remainingTime (st w)"
  "voiceEnabled (st (setSteps steps w)) = voiceEnabled (st w)"
  "distanceAlertFrequency (st (setSteps steps w)) = distanceAlertFrequency (st w)"
  by (simp_all add: setSteps_def effect_defs split: list.splits)

lemma stopNavigation_st:
  "st (stopNavigation c w)
     = (st w)\<lparr>isNavigating := False, activeRoute := None, currentStep := None, nextStep := None\<rparr>"
  by (simp add: stopNavigation_def effect_defs Let_def split: option.splits)

lemma stopNavigation_refs:
  "watchId (stopNavigation c w) = None"
  "watches (stopNavigation c w)
     = (case watchId w of None \<Rightarrow> watches w | Some i \<Rightarrow> filter (\<lambda>(j, c). j \<noteq> i) (watches w))"
  "timers (stopNavigation c w) = timers w"
  "lastVoiceAlert (stopNavigation c w) = lastVoiceAlert w"
  "lastDistanceAlert (stopNavigation c w) = lastDistanceAlert w"
  by (simp_all add: stopNavigation_def effect_defs Let_def split: option.splits)

lemma updateUserPosition_idle:
  "\<not> isNavigating c \<or> activeRoute c = None \<Longrightarrow>
   updateUserPosition c position now w
     = dispatchEvent ''userPositionUpdated'' (setCurrentPosition (Some position) w)"
  by (auto simp: updateUserPosition_def)

lemma recalculateRoute_guard:
  "currentPosition c = None \<or> destination c = None \<Longrightarrow> recalculateRoute c w = (Resolved, w)"
  by (auto simp: recalculateRoute_def split: option.splits)

lemma run_simps: "run [] w = w" "run (e # es) w = run es (step e w)"
  by (simp_all add: run_def)

lemma announce_step_frame:
  "st (announce_step c old new w) = st w"
  "timers (announce_step c old new w) = timers w"
  "lastDistanceAlert (announce_step c old new w) = lastDistanceAlert w"
  "watchId (announce_step c old new w) = watchId w"
  "watches (announce_step c old new w) = watches w"
  "toasts (announce_step c old new w) = toasts w"
  by (simp_all add: announce_step_def effect_defs Let_def)

lemma updateNavigationStep_frame:
  "timers (updateNavigationStep c position w) = timers w"
  "lastDistanceAlert (updateNavigationStep c position w) = lastDistanceAlert w"
  "watchId (updateNavigationStep c position w) = watchId w"
  "watches (updateNavigationStep c position w) = watches w"
  "toasts (updateNavigationStep c position w) = toasts w"
  "progress (st (updateNavigationStep c position w)) = progress (st w)"
  "isNavigating (st (updateNavigationStep c position w)) = isNavigating (st w)"
  "activeRoute (st (updateNavigationStep c position w)) = activeRoute (st w)"
  "origin (st (updateNavigationStep c position w)) = origin (st w)"
  "destination (st (updateNavigationStep c position w)) = destination (st w)"
  "currentPosition (st (updateNavigationStep c position w)) = currentPosition (st w)"
  "remainingDistance (st (updateNavigationStep c position w)) = remainingDistance (st w)"
  "remainingTime (st (updateNavigationStep c position w)) = remainingTime (st w)"
  by (simp_all add: updateNavigationStep_def announce_step_frame setSteps_frame Let_def
      split: option.splits list.splits)

lemma checkDistanceAnnouncement_frame:
  "st (checkDistanceAnnouncement c d now w) = st w"
  "timers (checkDistanceAnnouncement c d now w) = timers w"
  "watchId (checkDistanceAnnouncement c d now w) = watchId w"
  "watches (checkDistanceAnnouncement c d now w) = watches w"
  "toasts (checkDistanceAnnouncement c d now w) = toasts w"
  by (simp_all add: checkDistanceAnnouncement_def effect_defs split: option.splits)

lemma checkUpcomingTurn_frame:
  "st (checkUpcomingTurn c position w) = st w"
  "timers (checkUpcomingTurn c position w) = timers w"
  "lastDistanceAlert (checkUpcomingTurn c position w) = lastDistanceAlert w"
  "watchId (checkUpcomingTurn c position w) = watchId w"
  "watches (checkUpcomingTurn c position w) = watches w"
  "toasts (checkUpcomingTurn c position w) = toasts w"
  by (simp_all add: checkUpcomingTurn_def effect_defs Let_def split: option.splits)

lemma arrival_frame:
  "st (arrival c w) = st w"
  "timers (arrival c w) = timers w @ [(CallStopNavigation c, 5000)]"
  "lastDistanceAlert (arrival c w) = lastDistanceAlert w"
  "watchId (arrival c w) = watchId w"
  "watches (arrival c w) = watches w"
  "toasts (arrival c w) = toasts w @ [''Arrived!'']"
  by (simp_all add: arrival_def effect_defs Let_def)

lemma checkIfOffRoute_frame:
  "st (checkIfOffRoute c position w) = st w"
  "lastDistanceAlert (checkIfOffRoute c position w) = lastDistanceAlert w"
  "watchId (checkIfOffRoute c position w) = watchId w"
  "watches (checkIfOffRoute c position w) = watches w"
  by (simp_all add: checkIfOffRoute_def effect_defs Let_def split: option.splits)

lemma checkIfOffRoute_timers:
  "timers (checkIfOffRoute c position w)
     = (case activeRoute c of
          None \<Rightarrow> timers w
        | Some rt \<Rightarrow> if off_route position (route_path rt)
                     then timers w @ [(CallRecalculateRoute c, 3000)] else timers w)"
  by (simp add: checkIfOffRoute_def effect_defs Let_def split: option.splits)


lemma updateNavigationProgress_timers:
  "timers (updateNavigationProgress c position now w)
     = (case (activeRoute c, destination c) of
          (Some rt, Some dest) \<Rightarrow>
            timers w
              @ (if js_less (calculateDistance position (loc_coordinates dest)) (Num 0.05)
                 then [(CallStopNavigation c, 5000)] else [])
              @ (if off_route position (route_path rt)
                 then [(CallRecalculateRoute c, 3000)] else [])
        | _ \<Rightarrow> timers w)"
  by (simp add: updateNavigationProgress_def Let_def
      checkIfOffRoute_timers arrival_frame checkUpcomingTurn_frame checkDistanceAnnouncement_frame
      updateNavigationStep_frame effect_defs split: option.splits)

lemma updateNavigationProgress_lastDistanceAlert:
  "lastDistanceAlert (updateNavigationProgress c position now w)
     = (case (activeRoute c, destination c) of
          (Some rt, Some dest) \<Rightarrow>
            lastDistanceAlert
              (checkDistanceAnnouncement c (calculateDistance position (loc_coordinates dest)) now w)
        | _ \<Rightarrow> lastDistanceAlert w)"
  by (simp add: updateNavigationProgress_def Let_def
      checkIfOffRoute_frame arrival_frame checkUpcomingTurn_frame
      updateNavigationStep_frame effect_defs checkDistanceAnnouncement_def split: option.splits)

lemma startNavigation_frame:
  "timers (startNavigation c rt a b w) = timers w"
  "lastDistanceAlert (startNavigation c rt a b w) = lastDistanceAlert w"
  "lastVoiceAlert (startNavigation c rt a b w) = lastVoiceAlert w"
  "progress (st (startNavigation c rt a b w)) = Num 0"
  "isNavigating (st (startNavigation c rt a b w)) = True"
  "activeRoute (st (startNavigation c rt a b w)) = Some rt"
  "origin (st (startNavigation c rt a b w)) = Some a"
  "destination (st (startNavigation c rt a b w)) = Some b"
  "remainingDistance (st (startNavigation c rt a b w)) = route_distance rt"
  "remainingTime (st (startNavigation c rt a b w)) = route_duration rt"
  "currentPosition (st (startNavigation c rt a b w)) = currentPosition (st w)"
  by (simp_all add: startNavigation_def startPositionTracking_def setSteps_frame effect_defs
      Let_def split: option.splits)

lemma recalculateRoute_frame:
  "st (snd (recalculateRoute c w)) = st w"
  "lastDistanceAlert (snd (recalculateRoute c w)) = lastDistanceAlert w"
  "lastVoiceAlert (snd (recalculateRoute c w)) = lastVoiceAlert w"
  "spoken (snd (recalculateRoute c w)) = spoken w"
  by (simp_all add: recalculateRoute_def effect_defs Let_def split: option.splits)

lemma recalculate_resume_frame:
  "timers (snd (recalculate_resume c newOrigin dest random w)) = timers w"
  "lastDistanceAlert (snd (recalculate_resume c newOrigin dest random w)) = lastDistanceAlert w"
  "progress (st (snd (recalculate_resume c newOrigin dest random w))) = Num 0"
  "fst (recalculate_resume c newOrigin dest random w) = Resolved"
  "isNavigating (st (snd (recalculate_resume c newOrigin dest random w))) = isNavigating (st w)"
  "destination (st (snd (recalculate_resume c newOrigin dest random w))) = destination (st w)"
  "activeRoute (st (snd (recalculate_resume c newOrigin dest random w)))
     = Some (simulateNewRoute newOrigin dest random)"
  by (simp_all add: recalculate_resume_def setSteps_frame effect_defs Let_def)

lemma toggle_frame:
  "progress (st (toggleVoice c w)) = progress (st w)"
  "lastDistanceAlert (toggleVoice c w) = lastDistanceAlert w"
  "timers (toggleVoice c w) = timers w"
  "progress (st (setDistanceAlertFrequency f w)) = progress (st w)"
  "lastDistanceAlert (setDistanceAlertFrequency f w) = lastDistanceAlert w"
  "timers (setDistanceAlertFrequency f w) = timers w"
  by (simp_all add: toggleVoice_def setDistanceAlertFrequency_def effect_defs Let_def)

lemma updateUserPosition_proj:
  "progress (st (updateUserPosition c position now w))
     = (if isNavigating c \<and> activeRoute c \<noteq> None
        then progress (st (updateNavigationProgress c position now (setCurrentPosition (Some position) w)))
        else progress (st w))"
  "lastDistanceAlert (updateUserPosition c position now w)
     = (if isNavigating c \<and> activeRoute c \<noteq> None
        then lastDistanceAlert (updateNavigationProgress c position now (setCurrentPosition (Some position) w))
        else lastDistanceAlert w)"
  "timers (updateUserPosition c position now w)
     = (if isNavigating c \<and> activeRoute c \<noteq> None
        then timers (updateNavigationProgress c position now (setCurrentPosition (Some position) w))
        else timers w)"
  by (auto simp: updateUserPosition_def effect_defs Let_def)

lemma watch_position_proj:
  "progress (st (watch_position c position now w))
     = (if isNavigating c \<and> activeRoute c \<noteq> None
        then progress (st (updateNavigationProgress c position now (setCurrentPosition (Some position) w)))
        else progress (st w))"
  "lastDistanceAlert (watch_position c position now w)
     = (if isNavigating c \<and> activeRoute c \<noteq> None
        then lastDistanceAlert (updateNavigationProgress c position now (setCurrentPosition (Some position) w))
        else lastDistanceAlert w)"
  by (auto simp: watch_position_def effect_defs Let_def)

lemma run_callback_frame:
  "lastDistanceAlert (run_callback cb random w) = lastDistanceAlert w"
  by (cases cb) (simp_all add: run_callback_def stopNavigation_refs recalculateRoute_frame
      recalculate_resume_frame)

lemma fire_timer_lastDistanceAlert:
  "lastDistanceAlert (fire_timer i random w) = lastDistanceAlert w"
  by (simp add: fire_timer_def run_callback_frame)
















lemmas example_defs = east_route_def round_trip_def place_west_def place_east_def


lemma map_of_filter_other: "map_of (filter (\<lambda>(j, c). j \<noteq> i) ws) i = None"
  by (induction ws) auto

lemma stopNavigation_twice:
  "st (stopNavigation c' (stopNavigation c w)) = st (stopNavigation c w)"
  "watches (stopNavigation c' (stopNavigation c w)) = watches (stopNavigation c w)"
  by (simp_all add: stopNavigation_st stopNavigation_refs)

lemma startNavigation_watch:
  "geolocation w \<Longrightarrow> watchId (startNavigation c rt a b w) = Some (watchCounter w)"
  by (simp add: startNavigation_def startPositionTracking_def setSteps_frame effect_defs
      Let_def split: option.splits)

subsection \<open>Recalculation without a position or a destination\<close>

text \<open>
  Claim C4, as amended. When the closure of \<open>recalculateRoute\<close> has no current
  position or no destination, the call changes nothing in the world: no state, no ref,
  no timeout, no message; and the returned promise is resolved, since the guard is a
  plain \<open>return\<close> of an asynchronous function.
\<close>

theorem recalculate_without_position_or_destination:
  "currentPosition c = None \<or> destination c = None \<Longrightarrow>
   recalculateRoute c w = (Resolved, w)"
  by (rule recalculateRoute_guard)

theorem recalculate_without_position_or_destination_witness:
  "currentPosition initial_state = None \<and>
   recalculateRoute initial_state (initial_world True) = (Resolved, initial_world True)"
  using recalculate_without_position_or_destination [of initial_state "initial_world True"]
  by (simp add: initial_state_def)

text \<open>
  The claim as it is written says that the promise rejects. In the first render there is
  no current position, and the promise of the call is resolved.
\<close>

theorem recalculate_without_position_resolves:
  "currentPosition initial_state = None \<and>
   fst (recalculateRoute initial_state (initial_world True)) = Resolved \<and>
   fst (recalculateRoute initial_state (initial_world True)) \<noteq> Rejected"
  by (simp add: recalculateRoute_def initial_state_def)

subsection \<open>Stopping\<close>

text \<open>
  Claim C3, as amended. \<open>stopNavigation\<close> sets \<open>isNavigating\<close> to false and the
  active route, the current step and the next step to null, clears the position watch
  and forgets its id. It leaves the remaining distance, the remaining time, the
  progress, the current position, the origin and the destination as they were. A second
  stop changes neither the state nor the watches. A position update by the functions of
  the render after the stop stores the position as the current position and dispatches
  the position event, and does nothing else: no recomputation.
\<close>

theorem stop_resets_navigation_only:
  "st (stopNavigation c w)
     = (st w)\<lparr>isNavigating := False, activeRoute := None, currentStep := None, nextStep := None\<rparr> \<and>
   watchId (stopNavigation c w) = None \<and>
   (\<forall>i. watchId w = Some i \<longrightarrow> map_of (watches (stopNavigation c w)) i = None) \<and>
   remainingDistance (st (stopNavigation c w)) = remainingDistance (st w) \<and>
   remainingTime (st (stopNavigation c w)) = remainingTime (st w) \<and>
   progress (st (stopNavigation c w)) = progress (st w) \<and>
   currentPosition (st (stopNavigation c w)) = currentPosition (st w) \<and>
   origin (st (stopNavigation c w)) = origin (st w) \<and>
   destination (st (stopNavigation c w)) = destination (st w) \<and>
   st (stopNavigation c' (stopNavigation c w)) = st (stopNavigation c w) \<and>
   watchId (stopNavigation c' (stopNavigation c w)) = None \<and>
   watches (stopNavigation c' (stopNavigation c w)) = watches (stopNavigation c w) \<and>
   updateUserPosition (st (stopNavigation c w)) position now (stopNavigation c w)
     = dispatchEvent ''userPositionUpdated''
         (setCurrentPosition (Some position) (stopNavigation c w))"
proof -
  have "updateUserPosition (st (stopNavigation c w)) position now (stopNavigation c w)
     = dispatchEvent ''userPositionUpdated''
         (setCurrentPosition (Some position) (stopNavigation c w))"
    by (rule updateUserPosition_idle) (simp add: stopNavigation_st)
  then show ?thesis
    by (simp add: stopNavigation_st stopNavigation_refs stopNavigation_twice map_of_filter_other)
qed

theorem stop_resets_navigation_only_witness:
  "watchId (step (Start east_route place_west place_east) (initial_world True)) = Some 0 \<and>
   map_of (watches (run [Start east_route place_west place_east, Stop] (initial_world True))) 0 = None \<and>
   isNavigating (st (step (Start east_route place_west place_east) (initial_world True))) \<and>
   \<not> isNavigating (st (run [Start east_route place_west place_east, Stop] (initial_world True))) \<and>
   currentStep (st (run [Start east_route place_west place_east, Stop] (initial_world True))) = None"
proof -
  let ?w = "step (Start east_route place_west place_east) (initial_world True)"
  have g: "geolocation (initial_world True)" "watchCounter (initial_world True) = 0"
    by (simp_all add: initial_world_def)
  have i: "watchId ?w = Some 0"
    using startNavigation_watch[OF g(1)] g(2) by (simp add: step_def)
  have n: "isNavigating (st ?w)" by (simp add: step_def startNavigation_frame)
  have r: "run [Start east_route place_west place_east, Stop] (initial_world True)
             = stopNavigation (st ?w) ?w"
    by (simp add: run_simps) (simp add: step_def)
  from i n stop_resets_navigation_only [of "st ?w" ?w "st ?w" "(0, 0)" 0]
  show ?thesis unfolding r by simp
qed

text \<open>
  The claim as it is written says that stop clears all session fields and that the
  position update after it changes nothing. After start and stop on the route along the
  equator, the remaining distance and time, the origin and the destination are still
  those of the route; and the position update sets the current position, which was
  null.
\<close>

theorem stop_keeps_session_fields:
  "remainingDistance (st (run [Start east_route place_west place_east, Stop] (initial_world True)))
     = ''69.0 miles'' \<and>
   remainingTime (st (run [Start east_route place_west place_east, Stop] (initial_world True)))
     = ''138 mins'' \<and>
   origin (st (run [Start east_route place_west place_east, Stop] (initial_world True)))
     = Some place_west \<and>
   destination (st (run [Start east_route place_west place_east, Stop] (initial_world True)))
     = Some place_east \<and>
   currentPosition (st (run [Start east_route place_west place_east, Stop] (initial_world True)))
     = None \<and>
   currentPosition
     (st (run [Start east_route place_west place_east, Stop, PositionUpdate (1, 0) 1000000]
            (initial_world True)))
     = Some (1, 0)"
proof -
  let ?w = "step (Start east_route place_west place_east) (initial_world True)"
  let ?v = "stopNavigation (st ?w) ?w"
  have r: "run [Start east_route place_west place_east, Stop] (initial_world True) = ?v"
    by (simp add: run_simps) (simp add: step_def)
  have r2: "run [Start east_route place_west place_east, Stop, PositionUpdate (1, 0) 1000000]
              (initial_world True)
              = updateUserPosition (st ?v) (1, 0) 1000000 ?v"
    by (simp add: run_simps) (simp add: step_def)
  have u: "updateUserPosition (st ?v) (1, 0) 1000000 ?v
             = dispatchEvent ''userPositionUpdated'' (setCurrentPosition (Some (1, 0)) ?v)"
    by (rule updateUserPosition_idle) (simp add: stopNavigation_st)
  have c0: "currentPosition (st (initial_world True)) = None"
    by (simp add: initial_world_def initial_state_def)
  show ?thesis
    unfolding r r2 u
    by (simp add: stopNavigation_st step_def startNavigation_frame c0 effect_defs)
       (simp add: east_route_def)
qed

subsection \<open>Distance alerts\<close>

lemma js_round_near:
  assumes "\<bar>of_int k - x\<bar> < 1 / 2"
  shows "js_round x = k"
proof -
  have "of_int k \<le> x + 1 / 2" "x + 1 / 2 < of_int k + 1"
    using assms by linarith+
  then show ?thesis unfolding js_round_def by (intro floor_unique) simp_all
qed

lemma near_half_iff:
  "(\<exists>k::int. \<bar>of_int k / 2 - d\<bar> < 0.05) \<longleftrightarrow> \<bar>of_int (js_round (d * 2)) / 2 - d\<bar> < 0.05"
proof
  assume "\<exists>k::int. \<bar>of_int k / 2 - d\<bar> < 0.05"
  then obtain k :: int where k: "\<bar>of_int k / 2 - d\<bar> < 0.05" by blast
  then have "\<bar>of_int k / 2 - d\<bar> < 1 / 20" by simp
  then have "\<bar>of_int k - d * 2\<bar> < 1 / 2" by linarith
  then have "js_round (d * 2) = k" by (rule js_round_near)
  with k show "\<bar>of_int (js_round (d * 2)) / 2 - d\<bar> < 0.05" by simp
next
  assume "\<bar>of_int (js_round (d * 2)) / 2 - d\<bar> < 0.05"
  then show "\<exists>k::int. \<bar>of_int k / 2 - d\<bar> < 0.05" by blast
qed

lemma near_whole_iff:
  "(\<exists>k::int. \<bar>of_int k - d\<bar> < 0.05) \<longleftrightarrow> \<bar>of_int (js_round d) - d\<bar> < 0.05"
proof
  assume "\<exists>k::int. \<bar>of_int k - d\<bar> < 0.05"
  then obtain k :: int where k: "\<bar>of_int k - d\<bar> < 0.05" by blast
  then have "\<bar>of_int k - d\<bar> < 1 / 2" by simp
  then have "js_round d = k" by (rule js_round_near)
  with k show "\<bar>of_int (js_round d) - d\<bar> < 0.05" by simp
next
  assume "\<bar>of_int (js_round d) - d\<bar> < 0.05"
  then show "\<exists>k::int. \<bar>of_int k - d\<bar> < 0.05" by blast
qed

lemma near_whole_near_half:
  fixes d :: real
  assumes "\<exists>k::int. \<bar>of_int k - d\<bar> < 0.05"
  shows "\<exists>k::int. \<bar>of_int k / 2 - d\<bar> < 0.05"
proof -
  from assms obtain k :: int where "\<bar>of_int k - d\<bar> < 0.05" by blast
  then have "\<bar>of_int (2 * k) / 2 - d\<bar> < 0.05" by simp
  then show ?thesis by blast
qed

lemma announcement_at_high:
  "announcement_at High d
     = (if \<exists>k::int. \<bar>of_int k / 2 - d\<bar> < 0.05 then Some (remaining_message d) else None)"
proof -
  have "\<bar>of_int (js_round (d * 2)) / 2 - d\<bar> < 0.05
          \<or> (d \<le> 5 \<and> \<bar>of_int (js_round d) - d\<bar> < 0.05)
        \<longleftrightarrow> (\<exists>k::int. \<bar>of_int k / 2 - d\<bar> < 0.05)"
    using near_whole_near_half[of d] near_half_iff[of d] near_whole_iff[of d] by blast
  then show ?thesis by (simp add: announcement_at_def)
qed

lemma toFixed1_seven_and_a_half: "toFixed1 7.5 = ''7.5''"
  by (simp add: toFixed1_def toFixed1_abs_def show_nat.simps digit_char_def)

lemma not_near_whole_mile: "\<not> (\<exists>k::int. \<bar>of_int k - (7.5::real)\<bar> < 0.05)"
proof -
  have "js_round 7.5 = 8" by (simp add: js_round_def)
  then show ?thesis unfolding near_whole_iff by simp
qed

lemma checkDistanceAnnouncement_alert:
  "checkDistanceAnnouncement c d now w = w
   \<or> (30000 \<le> now - lastDistanceAlert w
       \<and> lastDistanceAlert (checkDistanceAnnouncement c d now w) = now
       \<and> (\<exists>message. spoken (checkDistanceAnnouncement c d now w) = spoken w @ [message]))"
  by (simp add: checkDistanceAnnouncement_def effect_defs split: option.splits)

lemma checkDistanceAnnouncement_time:
  "lastDistanceAlert (checkDistanceAnnouncement c d now w) = lastDistanceAlert w
   \<or> lastDistanceAlert w + 30000 \<le> lastDistanceAlert (checkDistanceAnnouncement c d now w)"
  using checkDistanceAnnouncement_alert[of c d now w] by auto

lemma updateNavigationProgress_time:
  "lastDistanceAlert (updateNavigationProgress c position now w) = lastDistanceAlert w
   \<or> lastDistanceAlert w + 30000 \<le> lastDistanceAlert (updateNavigationProgress c position now w)"
  using checkDistanceAnnouncement_time
  by (simp add: updateNavigationProgress_lastDistanceAlert split: option.splits)

lemma setCurrentPosition_lastDistanceAlert:
  "lastDistanceAlert (setCurrentPosition v w) = lastDistanceAlert w"
  by (simp add: setCurrentPosition_def)

lemma step_time:
  "lastDistanceAlert (step e w) = lastDistanceAlert w
   \<or> lastDistanceAlert w + 30000 \<le> lastDistanceAlert (step e w)"
proof (cases e)
  case (PositionUpdate position now)
  then show ?thesis
    using updateNavigationProgress_time[of c position now "setCurrentPosition (Some position) w" for c]
    by (simp add: step_def updateUserPosition_proj setCurrentPosition_lastDistanceAlert)
next
  case (WatchPosition i position now)
  then show ?thesis
    using updateNavigationProgress_time[of c position now "setCurrentPosition (Some position) w" for c]
    by (simp add: step_def watch_position_proj setCurrentPosition_lastDistanceAlert
        split: option.splits)
qed (simp_all add: step_def startNavigation_frame stopNavigation_refs recalculateRoute_frame
      fire_timer_lastDistanceAlert toggle_frame)

lemma alert_times_spaced:
  "sorted_wrt (\<lambda>t t'. t + 30000 \<le> t') (alert_times es w)
   \<and> (\<forall>t \<in> set (alert_times es w). lastDistanceAlert w + 30000 \<le> t)"
proof (induction es arbitrary: w)
  case Nil
  show ?case by simp
next
  case (Cons e es)
  from Cons.IH[of "step e w"] step_time[of e w] show ?case by fastforce
qed

text \<open>
  Claim C7, as amended. With the frequency "high", voice enabled and at least 30000 ms
  since the last distance alert, \<open>checkDistanceAnnouncement\<close> announces a remaining
  distance exactly when it is less than 0.05 miles from a multiple of half a mile, at
  every remaining distance, above 5 miles as well as below (the source's second test,
  for a whole mile at no more than 5 miles, is a case of the first); then it stores the
  time of the alert. A remaining distance that is no finite number is never announced.
  Whatever the frequency, it either changes nothing or at least 30000 ms have passed
  since the last distance alert; so in every execution the times of the distance
  alerts, after the time stored at its start, are at least 30000 ms apart.
\<close>

theorem distance_alerts_high_and_spacing:
  "(distanceAlertFrequency c = High \<and> voiceEnabled c \<and> 30000 \<le> now - lastDistanceAlert w \<longrightarrow>
      checkDistanceAnnouncement c (Num d) now w
        = (if \<exists>k::int. \<bar>of_int k / 2 - d\<bar> < 0.05
           then (speak (remaining_message d) w)
                  \<lparr>lastDistanceAlert := now, lastVoiceAlert := ''distance''\<rparr>
           else w)) \<and>
   checkDistanceAnnouncement c NaN now w = w \<and>
   checkDistanceAnnouncement c PosInf now w = w \<and>
   checkDistanceAnnouncement c NegInf now w = w \<and>
   (checkDistanceAnnouncement c x now w = w
    \<or> (30000 \<le> now - lastDistanceAlert w
        \<and> lastDistanceAlert (checkDistanceAnnouncement c x now w) = now
        \<and> (\<exists>message. spoken (checkDistanceAnnouncement c x now w) = spoken w @ [message]))) \<and>
   sorted_wrt (\<lambda>t t'. t + 30000 \<le> t') (lastDistanceAlert w # alert_times es w)"
proof (intro conjI impI)
  assume "distanceAlertFrequency c = High \<and> voiceEnabled c \<and> 30000 \<le> now - lastDistanceAlert w"
  then show "checkDistanceAnnouncement c (Num d) now w
        = (if \<exists>k::int. \<bar>of_int k / 2 - d\<bar> < 0.05
           then (speak (remaining_message d) w)
                  \<lparr>lastDistanceAlert := now, lastVoiceAlert := ''distance''\<rparr>
           else w)"
    by (auto simp: checkDistanceAnnouncement_def distance_announcement_def announcement_at_high)
next
  show "checkDistanceAnnouncement c NaN now w = w"
    by (simp add: checkDistanceAnnouncement_def distance_announcement_def)
next
  show "checkDistanceAnnouncement c PosInf now w = w"
    by (simp add: checkDistanceAnnouncement_def distance_announcement_def)
next
  show "checkDistanceAnnouncement c NegInf now w = w"
    by (simp add: checkDistanceAnnouncement_def distance_announcement_def)
next
  show "checkDistanceAnnouncement c x now w = w
    \<or> (30000 \<le> now - lastDistanceAlert w
        \<and> lastDistanceAlert (checkDistanceAnnouncement c x now w) = now
        \<and> (\<exists>message. spoken (checkDistanceAnnouncement c x now w) = spoken w @ [message]))"
    by (rule checkDistanceAnnouncement_alert)
next
  show "sorted_wrt (\<lambda>t t'. t + 30000 \<le> t') (lastDistanceAlert w # alert_times es w)"
    using alert_times_spaced[of es w] by simp
qed

theorem distance_alerts_high_and_spacing_witness:
  "distanceAlertFrequency (initial_state\<lparr>distanceAlertFrequency := High\<rparr>) = High \<and>
   voiceEnabled (initial_state\<lparr>distanceAlertFrequency := High\<rparr>) \<and>
   30000 \<le> 1000000 - lastDistanceAlert (initial_world True) \<and>
   \<bar>of_int 5 / 2 - (2.52::real)\<bar> < 0.05 \<and>
   spoken (checkDistanceAnnouncement (initial_state\<lparr>distanceAlertFrequency := High\<rparr>) (Num 2.52)
             1000000 (initial_world True))
     = [remaining_message 2.52] \<and>
   lastDistanceAlert
     (checkDistanceAnnouncement (initial_state\<lparr>distanceAlertFrequency := High\<rparr>) (Num 2.52)
        1000000 (initial_world True))
     = 1000000"
proof -
  have near: "\<exists>k::int. \<bar>of_int k / 2 - (2.52::real)\<bar> < 0.05"
    by (rule exI[of _ 5]) simp
  have pre: "distanceAlertFrequency (initial_state\<lparr>distanceAlertFrequency := High\<rparr>) = High"
    "voiceEnabled (initial_state\<lparr>distanceAlertFrequency := High\<rparr>)"
    "30000 \<le> 1000000 - lastDistanceAlert (initial_world True)"
    by (simp_all add: initial_state_def initial_world_def)
  from near pre
    distance_alerts_high_and_spacing
      [of "initial_state\<lparr>distanceAlertFrequency := High\<rparr>" 1000000 "initial_world True" "2.52"
        NaN "[]"]
  have "checkDistanceAnnouncement (initial_state\<lparr>distanceAlertFrequency := High\<rparr>) (Num 2.52)
          1000000 (initial_world True)
        = (speak (remaining_message 2.52) (initial_world True))
            \<lparr>lastDistanceAlert := 1000000, lastVoiceAlert := ''distance''\<rparr>"
    by simp
  then show ?thesis using pre by (simp add: speak_def initial_world_def)
qed

text \<open>
  The claim as it is written keeps the half miles for the distances up to 5 miles and
  announces only whole miles above. At 7.5 miles, which is above 5 miles and half a
  mile from the nearest whole mile, the alert fires.
\<close>

theorem distance_alert_at_half_mile_above_five_miles:
  "(5::real) < 7.5 \<and>
   \<not> (\<exists>k::int. \<bar>of_int k - (7.5::real)\<bar> < 0.05) \<and>
   spoken (checkDistanceAnnouncement (initial_state\<lparr>distanceAlertFrequency := High\<rparr>) (Num 7.5)
             1000000 (initial_world True))
     = [''7.5 miles remaining to your destination.''] \<and>
   lastDistanceAlert
     (checkDistanceAnnouncement (initial_state\<lparr>distanceAlertFrequency := High\<rparr>) (Num 7.5)
        1000000 (initial_world True))
     = 1000000"
proof -
  have a: "announcement_at High 7.5 = Some ''7.5 miles remaining to your destination.''"
    using toFixed1_seven_and_a_half
    by (simp add: announcement_at_def js_round_def remaining_message_def)
  have "checkDistanceAnnouncement (initial_state\<lparr>distanceAlertFrequency := High\<rparr>) (Num 7.5)
          1000000 (initial_world True)
        = (speak ''7.5 miles remaining to your destination.'' (initial_world True))
            \<lparr>lastDistanceAlert := 1000000, lastVoiceAlert := ''distance''\<rparr>"
    using a
    by (simp add: checkDistanceAnnouncement_def distance_announcement_def initial_state_def
        initial_world_def)
  then show ?thesis using not_near_whole_mile by (simp add: speak_def initial_world_def)
qed

subsection \<open>Being off the route\<close>

lemma js_less_trans_tenth:
  "js_less d acc \<Longrightarrow> js_less (Num 0.1) d \<Longrightarrow> js_less (Num 0.1) acc"
  by (cases d; cases acc) simp_all

lemma js_less_not_below:
  "\<not> js_less d acc \<Longrightarrow> js_less (Num 0.1) acc \<Longrightarrow> d = NaN \<or> js_less (Num 0.1) d"
  by (cases d; cases acc) simp_all

lemma js_less_below:
  "js_less d acc \<Longrightarrow> d \<noteq> NaN"
  by (cases d) simp_all

lemma min_distance_exceeds:
  "js_less (Num 0.1) (min_distance position ps acc)
     \<longleftrightarrow> js_less (Num 0.1) acc
          \<and> (\<forall>p \<in> set ps. calculateDistance position p = NaN
                           \<or> js_less (Num 0.1) (calculateDistance position p))"
proof (induction ps arbitrary: acc)
  case Nil
  show ?case by simp
next
  case (Cons p ps)
  show ?case
  proof (cases "js_less (calculateDistance position p) acc")
    case True
    then show ?thesis
      using Cons.IH[of "calculateDistance position p"] js_less_trans_tenth[OF True]
        js_less_below[OF True]
      by auto
  next
    case False
    then show ?thesis
      using Cons.IH[of acc] js_less_not_below[OF False] by auto
  qed
qed

lemma off_route_iff:
  "off_route position path
     \<longleftrightarrow> (\<forall>p \<in> set path. calculateDistance position p = NaN
                           \<or> js_less (Num 0.1) (calculateDistance position p))"
  using min_distance_exceeds[of position path PosInf] by (simp add: off_route_def)

lemma degree_miles: "43 < 3956 * pi / 180"
  using pi_ge_two by simp

lemma equator_far:
  assumes "1 \<le> \<bar>b - a\<bar>" "\<bar>b - a\<bar> \<le> 180"
  shows "43 < distance_value (a, 0) (b, 0)"
proof -
  have "3956 * pi / 180 * 1 \<le> 3956 * pi / 180 * \<bar>b - a\<bar>"
    using assms(1) by (intro mult_left_mono) simp_all
  then show ?thesis unfolding equator_distance[OF assms(2)] using degree_miles by linarith
qed

lemma equator_less:
  assumes "\<bar>b - a\<bar> \<le> 180" "\<bar>c - a\<bar> \<le> 180"
  shows "distance_value (a, 0) (b, 0) < distance_value (a, 0) (c, 0)
           \<longleftrightarrow> \<bar>b - a\<bar> < \<bar>c - a\<bar>"
  unfolding equator_distance[OF assms(1)] equator_distance[OF assms(2)]
  by (simp add: mult_less_cancel_left_pos)

lemma generateNavigationSteps_eq:
  "generateNavigationSteps path = generateDetailedNavigationSteps path"
  unfolding generateNavigationSteps_def
proof (rule map_idI)
  fix s :: nav_step
  show "\<lparr>instruction = instruction s, distance = distance s, coordinates = coordinates s,
         bearing = bearing s, maneuver = maneuver s\<rparr> = s"
    by (cases s) simp
qed

lemma steps_round_trip:
  "generateDetailedNavigationSteps [(0, 0), (3, 0), (0, 0)]
     = [travel_step None (0, 0) (3, 0), travel_step (Some (Num 90)) (3, 0) (0, 0),
        arrival_step [(0, 0), (3, 0), (0, 0)] (Some (Num 270))]"
  "generateDetailedNavigationSteps [(3, 0), (0, 0)]
     = [travel_step None (3, 0) (0, 0), arrival_step [(3, 0), (0, 0)] (Some (Num 270))]"
  by (simp_all add: generateDetailedNavigationSteps_def bearing_east_num bearing_west_num)

lemma step_texts:
  "instruction (travel_step None (0, 0) (3, 0))
     = ''Head east for '' @ toFixed1 (distance_value (0, 0) (3, 0)) @ '' miles''"
  "instruction (travel_step None (3, 0) (0, 0))
     = ''Head west for '' @ toFixed1 (distance_value (3, 0) (0, 0)) @ '' miles''"
  "maneuver (travel_step None (3, 0) (0, 0)) = ''straight''"
  "maneuver (travel_step (Some (Num 90)) (3, 0) (0, 0)) = ''left''"
  "coordinates (travel_step (Some (Num 90)) (3, 0) (0, 0)) = (3, 0)"
  "coordinates (travel_step None (0, 0) (3, 0)) = (0, 0)"
  by (simp_all add: travel_step_def Let_def bearing_east_num bearing_west_num
      calculateDistance_small generateTurnInstruction_def
      show_direction_def getDirectionFromBearing_def direction_index_def js_round_def
      js_rem_int_def js_trunc_def array_get_def directions_def classify_maneuver_def
      normalizedAngle_def js_rem_def maneuver_of_angle_def)

lemma far_on_round_trip:
  "43 < distance_value (1, 0) (0, 0)" "43 < distance_value (1, 0) (3, 0)"
  "43 < distance_value (2, 0) (0, 0)" "43 < distance_value (2, 0) (3, 0)"
  by (rule equator_far; simp)+

lemma closest_on_round_trip:
  "snd (closest_point (1, 0) [(0, 0), (3, 0), (0, 0)] 0 PosInf 0) = 0"
  "snd (closest_point (2, 0) [(0, 0), (3, 0), (0, 0)] 0 PosInf 0) = 1"
  by (simp_all add: calculateDistance_small equator_less)

lemma off_route_between_points:
  "off_route (1, 0) (route_path round_trip)"
  "off_route (2, 0) (route_path round_trip)"
  using far_on_round_trip by (simp_all add: off_route_iff round_trip_def calculateDistance_small)

lemma updateNavigationStep_round_trip:
  assumes "round_trip_closure c"
  shows "updateNavigationStep c (1, 0) w = w"
    and "updateNavigationStep c (2, 0) w
           = (speak (instruction (travel_step None (3, 0) (0, 0)))
                (setSteps [travel_step None (3, 0) (0, 0),
                           arrival_step [(3, 0), (0, 0)] (Some (Num 270))] w))
               \<lparr>lastVoiceAlert := instruction (travel_step None (3, 0) (0, 0))\<rparr>"
  using assms
  by (simp_all add: round_trip_closure_def updateNavigationStep_def round_trip_def
      calculateDistance_small equator_less generateNavigationSteps_eq steps_round_trip
      announce_step_def step_texts)

lemma checkDistanceAnnouncement_off:
  "distanceAlertFrequency c = Off \<Longrightarrow> checkDistanceAnnouncement c d now w = w"
  by (simp add: checkDistanceAnnouncement_def)

lemma checkUpcomingTurn_round_trip:
  assumes "round_trip_closure c"
  shows "checkUpcomingTurn c (1, 0) w = w" "checkUpcomingTurn c (2, 0) w = w"
  using assms far_on_round_trip
  by (simp_all add: round_trip_closure_def checkUpcomingTurn_def step_texts
      calculateDistance_small)

lemma checkIfOffRoute_round_trip:
  assumes "round_trip_closure c" "position = (1, 0) \<or> position = (2, 0)"
  shows "spoken (checkIfOffRoute c position w)
           = spoken w @ (if lastVoiceAlert w \<noteq> ''off-route''
                         then [''You appear to be off route. Recalculating.''] else [])"
    and "lastVoiceAlert (checkIfOffRoute c position w) = ''off-route''"
  using assms off_route_between_points
  by (auto simp: round_trip_closure_def checkIfOffRoute_def effect_defs)

lemma update_at_1:
  assumes "round_trip_closure c"
  shows "spoken (updateUserPosition c (1, 0) now w)
           = spoken w @ (if lastVoiceAlert w \<noteq> ''off-route''
                         then [''You appear to be off route. Recalculating.''] else [])"
    and "lastVoiceAlert (updateUserPosition c (1, 0) now w) = ''off-route''"
    and "round_trip_closure (st (updateUserPosition c (1, 0) now w))
           = round_trip_closure (st w)"
proof -
  have c: "isNavigating c" "activeRoute c = Some round_trip" "destination c = Some place_west"
    "distanceAlertFrequency c = Off"
    using assms by (simp_all add: round_trip_closure_def)
  have u: "updateUserPosition c (1, 0) now w
             = dispatchEvent ''userPositionUpdated''
                 (dispatchEvent ''navigationUpdated''
                    (checkIfOffRoute c (1, 0)
                       (setProgress (newProgress round_trip (Num (distance_value (1, 0) (0, 0))))
                          (setRemainingTime
                             (newRemainingTime round_trip (Num (distance_value (1, 0) (0, 0))))
                             (setRemainingDistance
                                (toFixed1 (distance_value (1, 0) (0, 0)) @ '' miles'')
                                (setCurrentPosition (Some (1, 0)) w))))))"
    using far_on_round_trip
    by (simp add: updateUserPosition_def updateNavigationProgress_def Let_def c place_west_def
        updateNavigationStep_round_trip[OF assms] checkDistanceAnnouncement_off
        checkUpcomingTurn_round_trip[OF assms] calculateDistance_small)
  show "spoken (updateUserPosition c (1, 0) now w)
           = spoken w @ (if lastVoiceAlert w \<noteq> ''off-route''
                         then [''You appear to be off route. Recalculating.''] else [])"
    unfolding u by (simp add: dispatchEvent_def checkIfOffRoute_round_trip[OF assms])
       (simp add: effect_defs)
  show "lastVoiceAlert (updateUserPosition c (1, 0) now w) = ''off-route''"
    unfolding u by (simp add: dispatchEvent_def checkIfOffRoute_round_trip[OF assms])
  show "round_trip_closure (st (updateUserPosition c (1, 0) now w))
           = round_trip_closure (st w)"
    unfolding u by (simp add: dispatchEvent_def checkIfOffRoute_frame)
       (simp add: effect_defs round_trip_closure_def)
qed

lemma update_at_2:
  assumes "round_trip_closure c"
  shows "spoken (updateUserPosition c (2, 0) now w)
           = spoken w @ [instruction (travel_step None (3, 0) (0, 0)),
                         ''You appear to be off route. Recalculating.'']"
proof -
  have c: "isNavigating c" "activeRoute c = Some round_trip" "destination c = Some place_west"
    "distanceAlertFrequency c = Off"
    using assms by (simp_all add: round_trip_closure_def)
  let ?w1 = "(speak (instruction (travel_step None (3, 0) (0, 0)))
                (setSteps [travel_step None (3, 0) (0, 0),
                           arrival_step [(3, 0), (0, 0)] (Some (Num 270))]
                   (setProgress (newProgress round_trip (Num (distance_value (2, 0) (0, 0))))
                      (setRemainingTime
                         (newRemainingTime round_trip (Num (distance_value (2, 0) (0, 0))))
                         (setRemainingDistance
                            (toFixed1 (distance_value (2, 0) (0, 0)) @ '' miles'')
                            (setCurrentPosition (Some (2, 0)) w))))))
               \<lparr>lastVoiceAlert := instruction (travel_step None (3, 0) (0, 0))\<rparr>"
  have u: "updateUserPosition c (2, 0) now w
             = dispatchEvent ''userPositionUpdated''
                 (dispatchEvent ''navigationUpdated'' (checkIfOffRoute c (2, 0) ?w1))"
    using far_on_round_trip
    by (simp add: updateUserPosition_def updateNavigationProgress_def Let_def c place_west_def
        updateNavigationStep_round_trip[OF assms] checkDistanceAnnouncement_off
        checkUpcomingTurn_round_trip[OF assms] calculateDistance_small)
  have k: "lastVoiceAlert ?w1 \<noteq> ''off-route''" by (simp add: step_texts)
  have s: "spoken ?w1 = spoken w @ [instruction (travel_step None (3, 0) (0, 0))]"
    by (simp add: speak_def setSteps_frame) (simp add: effect_defs)
  show ?thesis
    unfolding u using k s
    by (simp add: dispatchEvent_def checkIfOffRoute_round_trip[OF assms])
qed

lemma checkIfOffRoute_off:
  assumes "activeRoute c = Some rt" "off_route position (route_path rt)"
  shows "checkIfOffRoute c position w
           = setTimeout (CallRecalculateRoute c) 3000
               (addNotification ''Off Route''
                  (toast ''Off Route''
                     (if voiceEnabled c \<and> lastVoiceAlert w \<noteq> ''off-route''
                      then (speak ''You appear to be off route. Recalculating.'' w)
                             \<lparr>lastVoiceAlert := ''off-route''\<rparr>
                      else w)))"
  using assms by (simp add: checkIfOffRoute_def Let_def)

lemma checkIfOffRoute_on:
  assumes "activeRoute c = Some rt" "\<not> off_route position (route_path rt)"
  shows "checkIfOffRoute c position w = w"
  using assms by (simp add: checkIfOffRoute_def)

lemma checkIfOffRoute_last:
  assumes "activeRoute c = Some rt" "off_route position (route_path rt)"
  shows "last (timers (checkIfOffRoute c position w)) = (CallRecalculateRoute c, 3000)"
    and "last (toasts (checkIfOffRoute c position w)) = ''Off Route''"
    and "voiceEnabled c \<Longrightarrow> lastVoiceAlert (checkIfOffRoute c position w) = ''off-route''"
  unfolding checkIfOffRoute_off[OF assms] by (simp_all add: effect_defs)

lemma updateUserPosition_off_route:
  assumes "isNavigating c" "activeRoute c = Some rt" "destination c = Some dest"
    "off_route position (route_path rt)"
  shows "last (timers (updateUserPosition c position now w)) = (CallRecalculateRoute c, 3000)"
    and "last (toasts (updateUserPosition c position now w)) = ''Off Route''"
    and "voiceEnabled c \<Longrightarrow> lastVoiceAlert (updateUserPosition c position now w) = ''off-route''"
proof -
  obtain v where u: "updateUserPosition c position now w
      = dispatchEvent ''userPositionUpdated''
          (dispatchEvent ''navigationUpdated'' (checkIfOffRoute c position v))"
    using assms(1-3) by (simp add: updateUserPosition_def updateNavigationProgress_def Let_def)
  show "last (timers (updateUserPosition c position now w)) = (CallRecalculateRoute c, 3000)"
    unfolding u by (simp add: dispatchEvent_def checkIfOffRoute_last[OF assms(2,4)])
  show "last (toasts (updateUserPosition c position now w)) = ''Off Route''"
    unfolding u by (simp add: dispatchEvent_def checkIfOffRoute_last[OF assms(2,4)])
  show "lastVoiceAlert (updateUserPosition c position now w) = ''off-route''" if "voiceEnabled c"
    unfolding u using that by (simp add: dispatchEvent_def checkIfOffRoute_last[OF assms(2,4)])
qed

lemma started_round_trip:
  "round_trip_closure
     (st (run [SetFrequency Off, Start round_trip place_west place_west] (initial_world True)))"
  "spoken (run [SetFrequency Off, Start round_trip place_west place_west] (initial_world True))
     = [''Starting navigation. 414.3 miles to destination. Estimated arrival time: 829 mins.'']"
  "lastVoiceAlert
     (run [SetFrequency Off, Start round_trip place_west place_west] (initial_world True)) = ''''"
  by (simp_all add: run_simps step_def setDistanceAlertFrequency_def startNavigation_def
      startPositionTracking_def setSteps_def generateNavigationSteps_eq effect_defs Let_def
      initial_world_def initial_state_def round_trip_closure_def round_trip_def
      steps_round_trip)

lemma recalculateRoute_timers:
  "\<exists>new. timers (snd (recalculateRoute c w)) = timers w @ new"
  by (simp add: recalculateRoute_def effect_defs Let_def split: option.splits)

lemma fire_stop_timer:
  assumes "i < length (timers w)" "fst (timers w ! i) = CallStopNavigation c"
  shows "st (fire_timer i random w)
           = (st w)\<lparr>isNavigating := False, activeRoute := None, currentStep := None,
                     nextStep := None\<rparr>"
  using assms by (simp add: fire_timer_def run_callback_def stopNavigation_st)

lemma fire_recalculate_timer:
  assumes "i < length (timers w)" "fst (timers w ! i) = CallRecalculateRoute c"
  shows "fire_timer i random w
           = snd (recalculateRoute c (w\<lparr>timers := take i (timers w) @ drop (Suc i) (timers w)\<rparr>))"
  using assms by (simp add: fire_timer_def run_callback_def)

lemma updateUserPosition_timers:
  assumes "isNavigating c" "activeRoute c = Some rt" "destination c = Some dest"
  shows "timers (updateUserPosition c position now w)
           = timers w
               @ (if js_less (calculateDistance position (loc_coordinates dest)) (Num 0.05)
                  then [(CallStopNavigation c, 5000)] else [])
               @ (if off_route position (route_path rt)
                  then [(CallRecalculateRoute c, 3000)] else [])"
  using assms
  by (simp add: updateUserPosition_proj updateNavigationProgress_timers setCurrentPosition_def)

text \<open>The session on the route along the equator, just started, and its closure.\<close>

lemma started_east:
  "isNavigating (st (step (Start east_route place_west place_east) w))"
  "activeRoute (st (step (Start east_route place_west place_east) w)) = Some east_route"
  "destination (st (step (Start east_route place_west place_east) w)) = Some place_east"
  "timers (step (Start east_route place_west place_east) w) = timers w"
  by (simp_all add: step_def startNavigation_frame)

lemma on_route_at_east_end: "\<not> off_route (1, 0) (route_path east_route)"
  by (simp add: off_route_iff east_route_def calculateDistance_small distance_value_same)

lemma arrival_timer_after_update:
  "timers (run [Start east_route place_west place_east, PositionUpdate (1, 0) 1000000]
             (initial_world True))
     = [(CallStopNavigation (st (step (Start east_route place_west place_east) (initial_world True))),
         5000)]"
proof -
  let ?w = "step (Start east_route place_west place_east) (initial_world True)"
  have "timers ?w = []" by (simp add: started_east initial_world_def)
  then show ?thesis
    using updateUserPosition_timers[OF started_east(1-3), of "initial_world True" "(1, 0)" 1000000 ?w]
    by (simp add: run_simps) (simp add: step_def on_route_at_east_end place_east_def
        calculateDistance_small distance_value_same)
qed

lemma stale_timer_trace:
  "timers (run [Start east_route place_west place_east, PositionUpdate (1, 0) 1000000, Stop,
                Start east_route place_west place_east] (initial_world True))
     = [(CallStopNavigation (st (step (Start east_route place_west place_east) (initial_world True))),
         5000)]"
proof -
  have split: "run [Start east_route place_west place_east, PositionUpdate (1, 0) 1000000, Stop,
                Start east_route place_west place_east] (initial_world True)
     = step (Start east_route place_west place_east)
         (step Stop (run [Start east_route place_west place_east, PositionUpdate (1, 0) 1000000]
             (initial_world True)))"
    by (simp add: run_simps)
  have stop: "timers (step Stop v) = timers v" for v
    by (simp add: step_def stopNavigation_refs)
  show ?thesis unfolding split by (simp add: started_east stop arrival_timer_after_update)
qed

lemma east_started_closure:
  "isNavigating (st east_started)" "activeRoute (st east_started) = Some east_route"
  "destination (st east_started) = Some place_east" "timers east_started = []"
  by (simp_all add: east_started_def run_simps started_east initial_world_def)

lemma round_trip_started_closure:
  "round_trip_closure (st round_trip_started)"
  "isNavigating (st round_trip_started)" "activeRoute (st round_trip_started) = Some round_trip"
  "destination (st round_trip_started) = Some place_west" "voiceEnabled (st round_trip_started)"
  using started_round_trip(1)
  by (simp_all add: round_trip_started_def round_trip_closure_def)

lemma round_trip_started_timers: "timers round_trip_started = []"
  by (simp add: round_trip_started_def run_simps step_def startNavigation_frame
      setDistanceAlertFrequency_def initial_world_def)

text \<open>
  Claim C5, as amended. A position is off the route when its distance to every point of
  the path exceeds 0.1 miles (a distance that is \<open>NaN\<close> is passed over). The check of a position update that is off the route
  speaks the off-route alert if voice is enabled and the key of the last alert is not
  "off-route" at that moment, and makes "off-route" the key; it raises the toast and
  the notification and sets a timeout of 3000 ms that calls \<open>recalculateRoute\<close>,
  every time. A position that is not off the route changes nothing. So after a position
  update of a navigating closure that is off the route, the last timeout is that
  recalculation, the last toast is "Off Route", and with voice enabled the key is
  "off-route".
\<close>

theorem off_route_alert_and_recalculation:
  "(off_route position path
      \<longleftrightarrow> (\<forall>p \<in> set path. calculateDistance position p = NaN
                            \<or> js_less (Num 0.1) (calculateDistance position p))) \<and>
   (activeRoute c = Some rt \<and> off_route position (route_path rt) \<longrightarrow>
      checkIfOffRoute c position w
        = setTimeout (CallRecalculateRoute c) 3000
            (addNotification ''Off Route''
               (toast ''Off Route''
                  (if voiceEnabled c \<and> lastVoiceAlert w \<noteq> ''off-route''
                   then (speak ''You appear to be off route. Recalculating.'' w)
                          \<lparr>lastVoiceAlert := ''off-route''\<rparr>
                   else w)))) \<and>
   (activeRoute c = Some rt \<and> \<not> off_route position (route_path rt) \<longrightarrow>
      checkIfOffRoute c position w = w) \<and>
   (isNavigating c \<and> activeRoute c = Some rt \<and> destination c = Some dest
      \<and> off_route position (route_path rt) \<longrightarrow>
      last (timers (updateUserPosition c position now w)) = (CallRecalculateRoute c, 3000) \<and>
      last (toasts (updateUserPosition c position now w)) = ''Off Route'' \<and>
      (voiceEnabled c \<longrightarrow> lastVoiceAlert (updateUserPosition c position now w) = ''off-route''))"
  using off_route_iff[of position path] checkIfOffRoute_off[of c rt position w]
    checkIfOffRoute_on[of c rt position w]
    updateUserPosition_off_route[of c rt dest position now w]
  by blast

theorem off_route_alert_and_recalculation_witness:
  "activeRoute (st round_trip_started) = Some round_trip \<and>
   isNavigating (st round_trip_started) \<and>
   destination (st round_trip_started) = Some place_west \<and>
   voiceEnabled (st round_trip_started) \<and>
   off_route (1, 0) (route_path round_trip) \<and>
   js_less (Num 0.1) (calculateDistance (1, 0) (3, 0)) \<and>
   last (timers (updateUserPosition (st round_trip_started) (1, 0) 1000000 round_trip_started))
     = (CallRecalculateRoute (st round_trip_started), 3000) \<and>
   lastVoiceAlert (updateUserPosition (st round_trip_started) (1, 0) 1000000 round_trip_started)
     = ''off-route'' \<and>
   \<not> off_route (0, 0) (route_path round_trip) \<and>
   checkIfOffRoute (st round_trip_started) (0, 0) round_trip_started = round_trip_started"
proof -
  have off: "off_route (1, 0) (route_path round_trip)" by (rule off_route_between_points)
  have on: "\<not> off_route (0, 0) (route_path round_trip)"
    by (simp add: off_route_iff round_trip_def calculateDistance_small distance_value_same)
  have mem: "(3, 0) \<in> set (route_path round_trip)" by (simp add: round_trip_def)
  from off mem off_route_alert_and_recalculation
      [of "(1, 0)" "route_path round_trip" "st round_trip_started" round_trip round_trip_started
        place_west 1000000]
  have num: "calculateDistance (1, 0) (3, 0) \<noteq> NaN" by (simp add: calculateDistance_small)
  from off mem num off_route_alert_and_recalculation
      [of "(1, 0)" "route_path round_trip" "st round_trip_started" round_trip round_trip_started
        place_west 1000000]
  have far: "js_less (Num 0.1) (calculateDistance (1, 0) (3, 0))" by blast
  from off round_trip_started_closure off_route_alert_and_recalculation
      [of "(1, 0)" "route_path round_trip" "st round_trip_started" round_trip round_trip_started
        place_west 1000000]
  have a: "last (timers (updateUserPosition (st round_trip_started) (1, 0) 1000000 round_trip_started))
     = (CallRecalculateRoute (st round_trip_started), 3000)"
    "lastVoiceAlert (updateUserPosition (st round_trip_started) (1, 0) 1000000 round_trip_started)
     = ''off-route''"
    by blast+
  from on round_trip_started_closure off_route_alert_and_recalculation
      [of "(0, 0)" "route_path round_trip" "st round_trip_started" round_trip round_trip_started
        place_west 1000000]
  have b: "checkIfOffRoute (st round_trip_started) (0, 0) round_trip_started = round_trip_started"
    by blast
  from off on far a b round_trip_started_closure show ?thesis by simp
qed

text \<open>
  The claim as it is written says that the alert is emitted exactly once while the
  position stays off the route. On the round trip, with distance alerts off, the
  position (1, 0) is 69 miles from the nearest point of the path and the position
  (2, 0) as well; no recalculation happens between the two updates; the second update
  advances the step, whose announcement replaces the key, and the off-route alert is
  spoken a second time.
\<close>

theorem off_route_alert_repeats_while_off_route:
  "off_route (1, 0) (route_path round_trip) \<and> off_route (2, 0) (route_path round_trip) \<and>
   spoken (run [SetFrequency Off, Start round_trip place_west place_west,
                PositionUpdate (1, 0) 1000000, PositionUpdate (2, 0) 1001000] (initial_world True))
     = [''Starting navigation. 414.3 miles to destination. Estimated arrival time: 829 mins.'',
        ''You appear to be off route. Recalculating.'',
        ''Head west for '' @ toFixed1_num (calculateDistance (3, 0) (0, 0)) @ '' miles'',
        ''You appear to be off route. Recalculating.''] \<and>
   count_list
     (spoken (run [SetFrequency Off, Start round_trip place_west place_west,
                   PositionUpdate (1, 0) 1000000, PositionUpdate (2, 0) 1001000]
                (initial_world True)))
     ''You appear to be off route. Recalculating.'' = 2"
proof -
  let ?w1 = "run [SetFrequency Off, Start round_trip place_west place_west] (initial_world True)"
  let ?w2 = "updateUserPosition (st ?w1) (1, 0) 1000000 ?w1"
  let ?w3 = "updateUserPosition (st ?w2) (2, 0) 1001000 ?w2"
  have r: "run [SetFrequency Off, Start round_trip place_west place_west,
                PositionUpdate (1, 0) 1000000, PositionUpdate (2, 0) 1001000] (initial_world True)
             = ?w3"
    by (simp add: run_simps) (simp add: step_def)
  have c1: "round_trip_closure (st ?w1)" by (rule started_round_trip)
  have c2: "round_trip_closure (st ?w2)" using c1 by (simp add: update_at_1(3)[OF c1])
  have s2: "spoken ?w2
      = [''Starting navigation. 414.3 miles to destination. Estimated arrival time: 829 mins.'',
         ''You appear to be off route. Recalculating.'']"
    by (simp add: update_at_1(1)[OF c1] started_round_trip)
  have s3: "spoken ?w3
      = [''Starting navigation. 414.3 miles to destination. Estimated arrival time: 829 mins.'',
         ''You appear to be off route. Recalculating.'',
         ''Head west for '' @ toFixed1_num (calculateDistance (3, 0) (0, 0)) @ '' miles'',
         ''You appear to be off route. Recalculating.'']"
    by (simp add: update_at_2[OF c2] s2 step_texts calculateDistance_small)
  show ?thesis
    unfolding r s3 by (simp add: off_route_between_points)
qed

subsection \<open>Timeouts\<close>

lemma recalculation_timer_after_update:
  "timers (updateUserPosition (st round_trip_started) (1, 0) 1000000 round_trip_started)
     = [(CallRecalculateRoute (st round_trip_started), 3000)]"
  using updateUserPosition_timers[OF round_trip_started_closure(2-4), of "(1, 0)" 1000000
      round_trip_started] far_on_round_trip
  by (simp add: round_trip_started_timers off_route_between_points place_west_def
      calculateDistance_small)

text \<open>
  Claim C2, as amended. No operation cancels a timeout: \<open>stopNavigation\<close>,
  \<open>startNavigation\<close> and the completion of a recalculation leave the pending
  timeouts as they are, and a call of \<open>recalculateRoute\<close> only adds one. A position
  update of a navigating closure adds the arrival timeout of 5000 ms when the
  destination is nearer than 0.05 miles, and the recalculation timeout of 3000 ms when
  the position is off the route. When an arrival timeout fires, in whatever state, it
  sets the session idle and clears the route and the steps; when a recalculation timeout
  fires, it calls \<open>recalculateRoute\<close> with the closure of the update that set it.
\<close>

theorem timeouts_are_never_cancelled:
  "timers (stopNavigation c w) = timers w \<and>
   timers (startNavigation c rt a b w) = timers w \<and>
   timers (snd (recalculate_resume c newOrigin dest random w)) = timers w \<and>
   (\<exists>new. timers (snd (recalculateRoute c w)) = timers w @ new) \<and>
   (isNavigating c \<and> activeRoute c = Some rt \<and> destination c = Some dest \<longrightarrow>
      timers (updateUserPosition c position now w)
        = timers w
            @ (if js_less (calculateDistance position (loc_coordinates dest)) (Num 0.05)
               then [(CallStopNavigation c, 5000)] else [])
            @ (if off_route position (route_path rt)
               then [(CallRecalculateRoute c, 3000)] else [])) \<and>
   (i < length (timers w) \<and> fst (timers w ! i) = CallStopNavigation c' \<longrightarrow>
      st (fire_timer i random w)
        = (st w)\<lparr>isNavigating := False, activeRoute := None, currentStep := None,
                  nextStep := None\<rparr>) \<and>
   (i < length (timers w) \<and> fst (timers w ! i) = CallRecalculateRoute c' \<longrightarrow>
      fire_timer i random w
        = snd (recalculateRoute c'
                 (w\<lparr>timers := take i (timers w) @ drop (Suc i) (timers w)\<rparr>)))"
  using recalculateRoute_timers[of c w] updateUserPosition_timers[of c rt dest position now w]
    fire_stop_timer[of i w c' random] fire_recalculate_timer[of i w c' random]
  by (simp add: stopNavigation_refs startNavigation_frame recalculate_resume_frame)

theorem timeouts_are_never_cancelled_witness:
  "isNavigating (st east_started) \<and> activeRoute (st east_started) = Some east_route \<and>
   destination (st east_started) = Some place_east \<and>
   timers (updateUserPosition (st east_started) (1, 0) 1000000 east_started)
     = [(CallStopNavigation (st east_started), 5000)] \<and>
   0 < length (timers (stopNavigation (st east_started)
                (updateUserPosition (st east_started) (1, 0) 1000000 east_started))) \<and>
   fst (timers (stopNavigation (st east_started)
                (updateUserPosition (st east_started) (1, 0) 1000000 east_started)) ! 0)
     = CallStopNavigation (st east_started) \<and>
   \<not> isNavigating
       (st (fire_timer 0 0
              (stopNavigation (st east_started)
                 (updateUserPosition (st east_started) (1, 0) 1000000 east_started)))) \<and>
   0 < length (timers (updateUserPosition (st round_trip_started) (1, 0) 1000000 round_trip_started)) \<and>
   fst (timers (updateUserPosition (st round_trip_started) (1, 0) 1000000 round_trip_started) ! 0)
     = CallRecalculateRoute (st round_trip_started) \<and>
   fire_timer 0 0 (updateUserPosition (st round_trip_started) (1, 0) 1000000 round_trip_started)
     = snd (recalculateRoute (st round_trip_started)
              ((updateUserPosition (st round_trip_started) (1, 0) 1000000 round_trip_started)
                 \<lparr>timers := []\<rparr>))"
proof -
  let ?u = "updateUserPosition (st east_started) (1, 0) 1000000 east_started"
  let ?v = "stopNavigation (st east_started) ?u"
  let ?r = "updateUserPosition (st round_trip_started) (1, 0) 1000000 round_trip_started"
  have on: "\<not> off_route (1, 0) (route_path east_route)" by (rule on_route_at_east_end)
  have near: "js_less (calculateDistance (1, 0) (loc_coordinates place_east)) (Num 0.05)"
    by (simp add: place_east_def calculateDistance_small distance_value_same)
  from east_started_closure on near
    timeouts_are_never_cancelled
      [where c = "st east_started" and w = "east_started" and rt = east_route and dest = place_east
         and position = "(1, 0)" and now = 1000000 and i = 0 and c' = "st east_started" and random = 0]
  have u: "timers ?u = [(CallStopNavigation (st east_started), 5000)]" by simp
  from timeouts_are_never_cancelled
      [where c = "st east_started" and w = "?u" and rt = east_route and dest = place_east
         and position = "(1, 0)" and now = 1000000 and i = 0 and c' = "st east_started" and random = 0]
  have v: "timers ?v = timers ?u" by blast
  from u v timeouts_are_never_cancelled
      [where c = "st east_started" and w = "?v" and rt = east_route and dest = place_east
         and position = "(1, 0)" and now = 1000000 and i = 0 and c' = "st east_started" and random = 0]
  have f: "st (fire_timer 0 0 ?v)
             = (st ?v)\<lparr>isNavigating := False, activeRoute := None, currentStep := None,
                        nextStep := None\<rparr>"
    by simp
  from recalculation_timer_after_update timeouts_are_never_cancelled
      [where c = "st east_started" and w = "?r" and rt = east_route and dest = place_east
         and position = "(1, 0)" and now = 1000000 and i = 0 and c' = "st round_trip_started" and random = 0]
  have g: "fire_timer 0 0 ?r = snd (recalculateRoute (st round_trip_started) (?r\<lparr>timers := []\<rparr>))"
    by simp
  from u v f g east_started_closure recalculation_timer_after_update show ?thesis by simp
qed

text \<open>
  The claim as it is written says that a timeout that is pending at a stop is cancelled.
  On the route along the equator: the update at the destination sets the arrival
  timeout; after the stop it is still pending; navigation starts again; the timeout
  fires and stops the new session.
\<close>

theorem stale_arrival_timer_stops_new_session:
  "timers (run [Start east_route place_west place_east, PositionUpdate (1, 0) 1000000, Stop]
             (initial_world True)) \<noteq> [] \<and>
   isNavigating
     (st (run [Start east_route place_west place_east, PositionUpdate (1, 0) 1000000, Stop,
               Start east_route place_west place_east] (initial_world True))) \<and>
   activeRoute
     (st (run [Start east_route place_west place_east, PositionUpdate (1, 0) 1000000, Stop,
               Start east_route place_west place_east] (initial_world True))) = Some east_route \<and>
   \<not> isNavigating
     (st (run [Start east_route place_west place_east, PositionUpdate (1, 0) 1000000, Stop,
               Start east_route place_west place_east, Fire 0 0] (initial_world True))) \<and>
   activeRoute
     (st (run [Start east_route place_west place_east, PositionUpdate (1, 0) 1000000, Stop,
               Start east_route place_west place_east, Fire 0 0] (initial_world True))) = None"
proof -
  let ?es = "[Start east_route place_west place_east, PositionUpdate (1, 0) 1000000, Stop,
               Start east_route place_west place_east]"
  let ?v = "run ?es (initial_world True)"
  have a: "timers (run [Start east_route place_west place_east, PositionUpdate (1, 0) 1000000, Stop]
             (initial_world True)) \<noteq> []"
  proof -
    have "run [Start east_route place_west place_east, PositionUpdate (1, 0) 1000000, Stop]
             (initial_world True)
          = step Stop (run [Start east_route place_west place_east, PositionUpdate (1, 0) 1000000]
             (initial_world True))"
      by (simp add: run_simps)
    then show ?thesis
      by (simp add: step_def stopNavigation_refs arrival_timer_after_update)
  qed
  have v: "?v = step (Start east_route place_west place_east)
         (step Stop (run [Start east_route place_west place_east, PositionUpdate (1, 0) 1000000]
             (initial_world True)))"
    by (simp add: run_simps)
  have b: "isNavigating (st ?v)" "activeRoute (st ?v) = Some east_route"
    unfolding v by (simp_all add: started_east)
  have f: "run (?es @ [Fire 0 0]) (initial_world True) = fire_timer 0 0 ?v"
    by (simp add: run_def step_def)
  have "st (fire_timer 0 0 ?v)
          = (st ?v)\<lparr>isNavigating := False, activeRoute := None, currentStep := None,
                     nextStep := None\<rparr>"
    by (rule fire_stop_timer) (simp_all add: stale_timer_trace)
  with a b f show ?thesis by simp
qed

subsection \<open>Progress\<close>











end
